theory Spec2Isabelle
  imports Complex_Main "HOL-Library.Word" "HOL-Library.AList"
begin

unbundle bit_operations_syntax

section \<open>PostScript values (ps\_types.h, ps\_types.cpp)\<close>

text \<open>
  The interpreter handles every value through a \<^verbatim>\<open>std::shared_ptr<PSObject>\<close>.
  Two handles may point to one object, and \<^verbatim>\<open>arraySet\<close> and \<^verbatim>\<open>dictPut\<close>
  mutate the object in place, so the model keeps an explicit store: a handle is an index
  into the list of all objects ever created by \<^verbatim>\<open>make_shared\<close>.  Nothing is ever
  freed in the model; reference counting only frees what no handle can reach.

  \<^verbatim>\<open>int\<close> is a 32-bit word: \<^verbatim>\<open>+\<close>, \<^verbatim>\<open>-\<close> and \<^verbatim>\<open>*\<close> wrap, as on the usual
  targets (signed overflow is undefined in C++); \<^verbatim>\<open>/\<close> is treated where it is used.
  \<^verbatim>\<open>double\<close> is a type parameter \<open>'d\<close>: its arithmetic, comparisons and parsing
  are taken as parameters (\<open>double_ops\<close>), so that every theorem holds whatever the
  floating-point arithmetic of the target does.  The section on IEEE-754 doubles gives
  the instance on which the examples run.
\<close>

datatype ObjectType =
  INTEGER | REAL | STRING | BOOLEAN | ARRAY | DICTIONARY | PROCEDURE | NULL_OBJECT

type_synonym PSObjectPtr = nat

type_synonym PSArray = "PSObjectPtr list"

text \<open>\<^verbatim>\<open>std::unordered_map<std::string, PSObjectPtr>\<close>: an association list with
  unique keys, in the order of their first insertion (\<open>AList.update\<close> replaces or
  appends).  The order in which the C++ container enumerates its keys is unspecified;
  it is a parameter of the model (\<open>key_order\<close> below).\<close>

type_synonym PSDictionary = "(string \<times> PSObjectPtr) list"

type_synonym PSProcedure = "string list"

datatype 'd PSObject =
    NullObj
  | IntegerObj "32 word"
  | RealObj 'd
  | StringObj string
  | BooleanObj bool
  | ArrayObj PSArray
  | DictionaryObj PSDictionary
  | ProcedureObj PSProcedure

fun getType :: "'d PSObject \<Rightarrow> ObjectType" where
  "getType NullObj = NULL_OBJECT"
| "getType (IntegerObj _) = INTEGER"
| "getType (RealObj _) = REAL"
| "getType (StringObj _) = STRING"
| "getType (BooleanObj _) = BOOLEAN"
| "getType (ArrayObj _) = ARRAY"
| "getType (DictionaryObj _) = DICTIONARY"
| "getType (ProcedureObj _) = PROCEDURE"

text \<open>Every \<^verbatim>\<open>throw std::runtime_error(msg)\<close> is \<open>runtime_error msg\<close>.  \<open>out_of_fuel\<close>
  is the model's value for a run that has not returned within the given recursion depth
  or number of passes through a loop; \<open>undefined_behaviour\<close> marks an operation without
  defined result that does not throw: \<^verbatim>\<open>back()\<close> on an empty vector, a read beyond the
  end of a string, and the \<^verbatim>\<open>int\<close> division of \<^verbatim>\<open>INT_MIN\<close> by \<open>-1\<close> (which traps on
  the usual targets); \<open>implementation_defined\<close> is the model's value for a run whose
  result depends on a value that the parameters of the model leave open.\<close>

datatype error = runtime_error string | out_of_fuel | undefined_behaviour | implementation_defined

text \<open>
  The parameters of the model: the operations on \<^verbatim>\<open>double\<close> (\<open>d_of_int\<close> is the
  conversion of an \<^verbatim>\<open>int\<close>, also used for the literals \<^verbatim>\<open>0.0\<close>, \<^verbatim>\<open>1.0\<close> and
  \<^verbatim>\<open>180.0\<close>; \<open>stod\<close> is \<^verbatim>\<open>std::stod\<close>), and \<open>key_order\<close>, which maps the keys of an
  \<^verbatim>\<open>std::unordered_map\<close> in the order of their insertion to the order in which the
  container enumerates them.

  Three of them are not determined by the language and IEEE-754: the values of
  \<^verbatim>\<open>cos\<close> and \<^verbatim>\<open>sin\<close> of the mathematical library, whether \<^verbatim>\<open>std::stod\<close> throws for
  a value that underflows, and the order of enumeration.  Their results may be left
  open (\<open>None\<close>, \<open>Unspecified\<close>); a run that needs a result left open ends in
  \<open>implementation_defined\<close>.  On a given target none is left open.
\<close>

datatype 'a outcome = Returns 'a | Throws | Unspecified

record 'd double_ops =
  d_of_int :: "int \<Rightarrow> 'd"
  d_add :: "'d \<Rightarrow> 'd \<Rightarrow> 'd"
  d_sub :: "'d \<Rightarrow> 'd \<Rightarrow> 'd"
  d_mul :: "'d \<Rightarrow> 'd \<Rightarrow> 'd"
  d_div :: "'d \<Rightarrow> 'd \<Rightarrow> 'd"
  d_eq :: "'d \<Rightarrow> 'd \<Rightarrow> bool"
  d_lt :: "'d \<Rightarrow> 'd \<Rightarrow> bool"
  d_le :: "'d \<Rightarrow> 'd \<Rightarrow> bool"
  d_cos :: "'d \<Rightarrow> 'd option"
  d_sin :: "'d \<Rightarrow> 'd option"
  d_pi :: "'d"
  stod :: "string \<Rightarrow> 'd outcome"
  key_order :: "string list \<Rightarrow> string list option"

fun asInteger :: "'d PSObject \<Rightarrow> error + 32 word" where
  "asInteger (IntegerObj i) = Inr i"
| "asInteger _ = Inl (runtime_error ''Object is not an integer'')"

fun asReal :: "'d PSObject \<Rightarrow> error + 'd" where
  "asReal (RealObj d) = Inr d"
| "asReal _ = Inl (runtime_error ''Object is not a real number'')"

fun asString :: "'d PSObject \<Rightarrow> error + string" where
  "asString (StringObj s) = Inr s"
| "asString _ = Inl (runtime_error ''Object is not a string'')"

fun asBoolean :: "'d PSObject \<Rightarrow> error + bool" where
  "asBoolean (BooleanObj b) = Inr b"
| "asBoolean _ = Inl (runtime_error ''Object is not a boolean'')"

fun asArray :: "'d PSObject \<Rightarrow> error + PSArray" where
  "asArray (ArrayObj xs) = Inr xs"
| "asArray _ = Inl (runtime_error ''Object is not an array'')"

fun asProcedure :: "'d PSObject \<Rightarrow> error + PSProcedure" where
  "asProcedure (ProcedureObj p) = Inr p"
| "asProcedure _ = Inl (runtime_error ''Object is not a procedure'')"

text \<open>The idiom
  \<^verbatim>\<open>double v = (o->getType() == ObjectType::INTEGER) ? o->asInteger() : o->asReal();\<close>\<close>

fun asNumber :: "'d double_ops \<Rightarrow> 'd PSObject \<Rightarrow> error + 'd" where
  "asNumber fp (IntegerObj i) = Inr (d_of_int fp (sint i))"
| "asNumber fp obj = asReal obj"

section \<open>Graphics state (ps\_types.h)\<close>

datatype 'd Point = Point 'd 'd

datatype SegmentType = MoveTo | LineTo | CurveTo | ClosePath

datatype 'd PathSegment = PathSegment SegmentType "'d Point list"

record 'd GraphicsState =
  currentPoint :: "'d Point"
  currentPath :: "'d PathSegment list"
  ctm :: "'d list"
  lineWidth :: "'d"
  color_r :: "'d"
  color_g :: "'d"
  color_b :: "'d"

definition GraphicsState_init :: "'d double_ops \<Rightarrow> 'd GraphicsState" where
  "GraphicsState_init fp =
     \<lparr> currentPoint = Point (d_of_int fp 0) (d_of_int fp 0),
       currentPath = [],
       ctm = [d_of_int fp 1, d_of_int fp 0, d_of_int fp 0,
              d_of_int fp 1, d_of_int fp 0, d_of_int fp 0],
       lineWidth = d_of_int fp 1,
       color_r = d_of_int fp 0, color_g = d_of_int fp 0, color_b = d_of_int fp 0 \<rparr>"

section \<open>Interpreter state (ps\_interpreter.h, ps\_stack.cpp)\<close>

text \<open>
  \<open>heap\<close> is the store of all objects; \<open>stack\<close> is the operand stack with the
  \<^emph>\<open>head of the list as the back of the vector\<close> (the top); \<open>dictionaryStack\<close> and
  \<open>graphicsStack\<close> likewise have their current entry at the head.  Writes to
  \<^verbatim>\<open>std::cout\<close> and \<^verbatim>\<open>std::cerr\<close> (debug lines, warnings, the text of
  \<^verbatim>\<open>show\<close> and the paint events) are not part of the state.
\<close>

record 'd PSInterpreter =
  heap :: "'d PSObject list"
  stack :: "PSObjectPtr list"
  dictionaryStack :: "PSObjectPtr list"
  graphicsStack :: "'d GraphicsState list"

type_synonym 'd result = "error + 'd PSInterpreter"

text \<open>Dereferencing a handle.  Handles are created by \<open>make_shared\<close> only, so the
  second branch is not reached from a state the interpreter built itself.\<close>

definition deref :: "'d PSObject list \<Rightarrow> PSObjectPtr \<Rightarrow> 'd PSObject" where
  "deref h p = (if p < length h then h ! p else NullObj)"

definition make_shared :: "'d PSObject \<Rightarrow> 'd PSInterpreter \<Rightarrow> PSObjectPtr \<times> 'd PSInterpreter" where
  "make_shared obj st = (length (heap st), st\<lparr>heap := heap st @ [obj]\<rparr>)"

definition stack_push :: "PSObjectPtr \<Rightarrow> 'd PSInterpreter \<Rightarrow> 'd PSInterpreter" where
  "stack_push p st = st\<lparr>stack := p # stack st\<rparr>"

text \<open>\<^verbatim>\<open>stack.push(std::make_shared<PSObject>(v))\<close>\<close>

definition push_new :: "'d PSObject \<Rightarrow> 'd PSInterpreter \<Rightarrow> 'd PSInterpreter" where
  "push_new obj st = (case make_shared obj st of (p, st') \<Rightarrow> stack_push p st')"

definition stack_pop :: "'d PSInterpreter \<Rightarrow> error + (PSObjectPtr \<times> 'd PSInterpreter)" where
  "stack_pop st =
     (case stack st of
        [] \<Rightarrow> Inl (runtime_error ''Stack underflow: cannot pop from empty stack'')
      | p # rest \<Rightarrow> Inr (p, st\<lparr>stack := rest\<rparr>))"

definition stack_peek :: "'d PSInterpreter \<Rightarrow> error + PSObjectPtr" where
  "stack_peek st =
     (case stack st of
        [] \<Rightarrow> Inl (runtime_error ''Stack underflow: cannot peek empty stack'')
      | p # rest \<Rightarrow> Inr p)"

definition stack_dup :: "'d PSInterpreter \<Rightarrow> 'd result" where
  "stack_dup st =
     (case stack st of
        [] \<Rightarrow> Inl (runtime_error ''Stack underflow: cannot dup empty stack'')
      | p # rest \<Rightarrow> Inr (push_new (deref (heap st) p) st))"

definition stack_exch :: "'d PSInterpreter \<Rightarrow> 'd result" where
  "stack_exch st =
     (case stack st of
        b # a # rest \<Rightarrow> Inr (st\<lparr>stack := a # b # rest\<rparr>)
      | _ \<Rightarrow> Inl (runtime_error ''Stack underflow: need at least 2 elements for exch''))"

definition stack_clear :: "'d PSInterpreter \<Rightarrow> 'd PSInterpreter" where
  "stack_clear st = st\<lparr>stack := []\<rparr>"

text \<open>\<^verbatim>\<open>PSObject::arraySet\<close> through a handle: the object is updated in the store.\<close>

definition arraySet :: "PSObjectPtr \<Rightarrow> nat \<Rightarrow> PSObjectPtr \<Rightarrow> 'd PSInterpreter \<Rightarrow> 'd result" where
  "arraySet p index obj st =
     (case deref (heap st) p of
        ArrayObj xs \<Rightarrow>
          if index \<ge> length xs then Inl (runtime_error ''Array index out of bounds'')
          else Inr (st\<lparr>heap := (heap st)[p := ArrayObj (xs[index := obj])]\<rparr>)
      | _ \<Rightarrow> Inl (runtime_error ''Object is not an array''))"

definition arrayGet :: "'d PSObject \<Rightarrow> nat \<Rightarrow> error + PSObjectPtr" where
  "arrayGet obj index =
     (case obj of
        ArrayObj xs \<Rightarrow>
          if index \<ge> length xs then Inl (runtime_error ''Array index out of bounds'')
          else Inr (xs ! index)
      | _ \<Rightarrow> Inl (runtime_error ''Object is not an array''))"

definition dictPut :: "PSObjectPtr \<Rightarrow> string \<Rightarrow> PSObjectPtr \<Rightarrow> 'd PSInterpreter \<Rightarrow> 'd result" where
  "dictPut p key v st =
     (case deref (heap st) p of
        DictionaryObj d \<Rightarrow> Inr (st\<lparr>heap := (heap st)[p := DictionaryObj (AList.update key v d)]\<rparr>)
      | _ \<Rightarrow> Inl (runtime_error ''Object is not a dictionary''))"

definition dictGet :: "'d PSObject \<Rightarrow> string \<Rightarrow> error + PSObjectPtr" where
  "dictGet obj key =
     (case obj of
        DictionaryObj d \<Rightarrow>
          (case map_of d key of
             None \<Rightarrow> Inl (runtime_error (''Dictionary key not found: '' @ key))
           | Some v \<Rightarrow> Inr v)
      | _ \<Rightarrow> Inl (runtime_error ''Object is not a dictionary''))"

definition dictHas :: "'d PSObject \<Rightarrow> string \<Rightarrow> bool" where
  "dictHas obj key =
     (case obj of DictionaryObj d \<Rightarrow> map_of d key \<noteq> None | _ \<Rightarrow> False)"

text \<open>\<^verbatim>\<open>PSObject::dictKeys\<close> collects the keys in the order of \<^verbatim>\<open>for (const auto& pair : dict)\<close>.\<close>

definition dictKeys :: "'d double_ops \<Rightarrow> 'd PSObject \<Rightarrow> error + string list" where
  "dictKeys fp obj =
     (case obj of
        DictionaryObj d \<Rightarrow>
          (case key_order fp (map fst d) of
             Some keys \<Rightarrow> Inr keys
           | None \<Rightarrow> Inl implementation_defined)
      | _ \<Rightarrow> Inl (runtime_error ''Object is not a dictionary''))"

text \<open>\<^verbatim>\<open>getCurrentDictionary\<close>: \<^verbatim>\<open>nullptr\<close> is \<open>None\<close>.\<close>

definition getCurrentDictionary :: "'d PSInterpreter \<Rightarrow> PSObjectPtr option" where
  "getCurrentDictionary st =
     (case dictionaryStack st of [] \<Rightarrow> None | d # _ \<Rightarrow> Some d)"

section \<open>Operators (ps\_operators.cpp)\<close>

text \<open>Sequencing of calls that may throw: the first exception ends the run.\<close>

fun and_then :: "error + 'a \<Rightarrow> ('a \<Rightarrow> error + 'b) \<Rightarrow> error + 'b" where
  "and_then (Inl e) f = Inl e"
| "and_then (Inr x) f = f x"

subsection \<open>Arithmetic\<close>

text \<open>\<^verbatim>\<open>add\<close>, \<^verbatim>\<open>sub\<close> and \<^verbatim>\<open>mul\<close> are the same text up to the C++ operator and the
  name in the messages: both operands are popped (\<open>b\<close> first), two Integers give an
  Integer, otherwise one Real operand is required and each operand is converted with
  \<open>asNumber\<close> (which throws for anything that is neither Integer nor Real).\<close>

definition arith :: "string \<Rightarrow> (32 word \<Rightarrow> 32 word \<Rightarrow> 32 word) \<Rightarrow> ('d \<Rightarrow> 'd \<Rightarrow> 'd)
    \<Rightarrow> 'd double_ops \<Rightarrow> 'd PSInterpreter \<Rightarrow> 'd result" where
  "arith name iop dop fp st =
     (case stack st of
        b # a # rest \<Rightarrow>
          (let oa = deref (heap st) a; ob = deref (heap st) b; st' = st\<lparr>stack := rest\<rparr> in
           if getType oa = INTEGER \<and> getType ob = INTEGER then
             and_then (asInteger oa) (\<lambda>x. and_then (asInteger ob) (\<lambda>y.
               Inr (push_new (IntegerObj (iop x y)) st')))
           else if getType oa = REAL \<or> getType ob = REAL then
             and_then (asNumber fp oa) (\<lambda>aVal. and_then (asNumber fp ob) (\<lambda>bVal.
               Inr (push_new (RealObj (dop aVal bVal)) st')))
           else Inl (runtime_error (''Invalid operands for '' @ name @ '' operation'')))
      | _ \<Rightarrow> Inl (runtime_error (''Stack underflow: need 2 operands for '' @ name)))"

definition op_add :: "'d double_ops \<Rightarrow> 'd PSInterpreter \<Rightarrow> 'd result" where
  "op_add fp = arith ''add'' (\<lambda>x y. x + y) (d_add fp) fp"

definition op_sub :: "'d double_ops \<Rightarrow> 'd PSInterpreter \<Rightarrow> 'd result" where
  "op_sub fp = arith ''sub'' (\<lambda>x y. x - y) (d_sub fp) fp"

definition op_mul :: "'d double_ops \<Rightarrow> 'd PSInterpreter \<Rightarrow> 'd result" where
  "op_mul fp = arith ''mul'' (\<lambda>x y. x * y) (d_mul fp) fp"

text \<open>C++ \<^verbatim>\<open>/\<close> on \<^verbatim>\<open>int\<close> truncates towards zero.  It has no defined result for a
  zero divisor, nor when the quotient is not an \<^verbatim>\<open>int\<close>, which is the case for
  \<^verbatim>\<open>INT_MIN / -1\<close> only.\<close>

definition trunc_div :: "int \<Rightarrow> int \<Rightarrow> int" where
  "trunc_div a b = sgn a * sgn b * (\<bar>a\<bar> div \<bar>b\<bar>)"

definition int_div :: "32 word \<Rightarrow> 32 word \<Rightarrow> error + 32 word" where
  "int_div a b =
     (if b = 0 \<or> (sint a = - (2 ^ 31) \<and> sint b = - 1) then Inl undefined_behaviour
      else Inr (word_of_int (trunc_div (sint a) (sint b))))"

definition op_div :: "'d double_ops \<Rightarrow> 'd PSInterpreter \<Rightarrow> 'd result" where
  "op_div fp st =
     (case stack st of
        b # a # rest \<Rightarrow>
          (let oa = deref (heap st) a; ob = deref (heap st) b; st' = st\<lparr>stack := rest\<rparr> in
           if (case ob of IntegerObj y \<Rightarrow> y = 0
                        | RealObj y \<Rightarrow> d_eq fp y (d_of_int fp 0)
                        | _ \<Rightarrow> False)
           then Inl (runtime_error ''Division by zero'')
           else if getType oa = INTEGER \<and> getType ob = INTEGER then
             and_then (asInteger oa) (\<lambda>x. and_then (asInteger ob) (\<lambda>y.
               and_then (int_div x y) (\<lambda>result.
                 Inr (push_new (IntegerObj result) st'))))
           else
             and_then (asNumber fp oa) (\<lambda>aVal. and_then (asNumber fp ob) (\<lambda>bVal.
               Inr (push_new (RealObj (d_div fp aVal bVal)) st'))))
      | _ \<Rightarrow> Inl (runtime_error ''Stack underflow: need 2 operands for div''))"

subsection \<open>Stack and output\<close>

definition op_dup :: "'d PSInterpreter \<Rightarrow> 'd result" where
  "op_dup st = stack_dup st"

definition op_pop :: "'d PSInterpreter \<Rightarrow> 'd result" where
  "op_pop st = and_then (stack_pop st) (\<lambda>(p, st'). Inr st')"

definition op_exch :: "'d PSInterpreter \<Rightarrow> 'd result" where
  "op_exch st = stack_exch st"

definition op_clear :: "'d PSInterpreter \<Rightarrow> 'd result" where
  "op_clear st = Inr (stack_clear st)"

text \<open>\<^verbatim>\<open>stack\<close> only prints.\<close>

definition op_stack :: "'d PSInterpreter \<Rightarrow> 'd result" where
  "op_stack st = Inr st"

text \<open>\<^verbatim>\<open>show\<close> pops one value and prints it.\<close>

definition op_show :: "'d PSInterpreter \<Rightarrow> 'd result" where
  "op_show st =
     (case stack st of
        [] \<Rightarrow> Inl (runtime_error ''Stack underflow: need 1 operand for show'')
      | obj # rest \<Rightarrow> Inr (st\<lparr>stack := rest\<rparr>))"

subsection \<open>Comparison\<close>

text \<open>The \<^verbatim>\<open>bool result\<close> of \<^verbatim>\<open>eq\<close>: \<^verbatim>\<open>false\<close> unless the type tags agree, and then
  the \<^verbatim>\<open>switch\<close> on the tag, whose default is \<^verbatim>\<open>false\<close>.\<close>

definition eq_result :: "'d double_ops \<Rightarrow> 'd PSObject \<Rightarrow> 'd PSObject \<Rightarrow> bool" where
  "eq_result fp oa ob =
     (if getType oa = getType ob then
        (case (oa, ob) of
           (IntegerObj x, IntegerObj y) \<Rightarrow> x = y
         | (RealObj x, RealObj y) \<Rightarrow> d_eq fp x y
         | (StringObj x, StringObj y) \<Rightarrow> x = y
         | (BooleanObj x, BooleanObj y) \<Rightarrow> x = y
         | _ \<Rightarrow> False)
      else False)"

definition op_eq :: "'d double_ops \<Rightarrow> 'd PSInterpreter \<Rightarrow> 'd result" where
  "op_eq fp st =
     (case stack st of
        b # a # rest \<Rightarrow>
          (let oa = deref (heap st) a; ob = deref (heap st) b; st' = st\<lparr>stack := rest\<rparr>
           in Inr (push_new (BooleanObj (eq_result fp oa ob)) st'))
      | _ \<Rightarrow> Inl (runtime_error ''Stack underflow: need 2 operands for eq''))"

definition op_ne :: "'d double_ops \<Rightarrow> 'd PSInterpreter \<Rightarrow> 'd result" where
  "op_ne fp st =
     and_then (op_eq fp st) (\<lambda>st1.
     and_then (stack_pop st1) (\<lambda>(res, st2).
     and_then (asBoolean (deref (heap st2) res)) (\<lambda>r.
       Inr (push_new (BooleanObj (\<not> r)) st2))))"

text \<open>\<^verbatim>\<open>lt\<close>, \<^verbatim>\<open>le\<close>, \<^verbatim>\<open>gt\<close> and \<^verbatim>\<open>ge\<close> are the same text up to the comparison.\<close>

definition compare :: "string \<Rightarrow> (int \<Rightarrow> int \<Rightarrow> bool) \<Rightarrow> ('d \<Rightarrow> 'd \<Rightarrow> bool)
    \<Rightarrow> 'd double_ops \<Rightarrow> 'd PSInterpreter \<Rightarrow> 'd result" where
  "compare name icmp dcmp fp st =
     (case stack st of
        b # a # rest \<Rightarrow>
          (let oa = deref (heap st) a; ob = deref (heap st) b; st' = st\<lparr>stack := rest\<rparr> in
           if getType oa = INTEGER \<and> getType ob = INTEGER then
             and_then (asInteger oa) (\<lambda>x. and_then (asInteger ob) (\<lambda>y.
               Inr (push_new (BooleanObj (icmp (sint x) (sint y))) st')))
           else if getType oa = REAL \<or> getType ob = REAL then
             and_then (asNumber fp oa) (\<lambda>aVal. and_then (asNumber fp ob) (\<lambda>bVal.
               Inr (push_new (BooleanObj (dcmp aVal bVal)) st')))
           else Inl (runtime_error (''Invalid operands for '' @ name @ '' operation'')))
      | _ \<Rightarrow> Inl (runtime_error (''Stack underflow: need 2 operands for '' @ name)))"

definition op_lt :: "'d double_ops \<Rightarrow> 'd PSInterpreter \<Rightarrow> 'd result" where
  "op_lt fp = compare ''lt'' (\<lambda>x y. x < y) (d_lt fp) fp"

definition op_le :: "'d double_ops \<Rightarrow> 'd PSInterpreter \<Rightarrow> 'd result" where
  "op_le fp = compare ''le'' (\<lambda>x y. x \<le> y) (d_le fp) fp"

definition op_gt :: "'d double_ops \<Rightarrow> 'd PSInterpreter \<Rightarrow> 'd result" where
  "op_gt fp = compare ''gt'' (\<lambda>x y. x > y) (\<lambda>x y. d_lt fp y x) fp"

definition op_ge :: "'d double_ops \<Rightarrow> 'd PSInterpreter \<Rightarrow> 'd result" where
  "op_ge fp = compare ''ge'' (\<lambda>x y. x \<ge> y) (\<lambda>x y. d_le fp y x) fp"

subsection \<open>Arrays\<close>

text \<open>The loop of \<^verbatim>\<open>array\<close> that fills the new vector with fresh null objects.\<close>

fun make_nulls :: "nat \<Rightarrow> 'd PSInterpreter \<Rightarrow> PSArray \<times> 'd PSInterpreter" where
  "make_nulls 0 st = ([], st)"
| "make_nulls (Suc k) st =
     (case make_shared NullObj st of
        (p, st1) \<Rightarrow> (case make_nulls k st1 of (ps, st2) \<Rightarrow> (p # ps, st2)))"

definition op_array :: "'d PSInterpreter \<Rightarrow> 'd result" where
  "op_array st =
     (case stack st of
        [] \<Rightarrow> Inl (runtime_error ''Stack underflow: need size for array'')
      | sizeObj # rest \<Rightarrow>
          (case deref (heap st) sizeObj of
             IntegerObj n \<Rightarrow>
               if sint n < 0 then Inl (runtime_error ''Array size cannot be negative'')
               else
                 (case make_nulls (nat (sint n)) (st\<lparr>stack := rest\<rparr>) of
                    (array, st1) \<Rightarrow> Inr (push_new (ArrayObj array) st1))
           | _ \<Rightarrow> Inl (runtime_error ''Array size must be an integer'')))"

definition op_get :: "'d PSInterpreter \<Rightarrow> 'd result" where
  "op_get st =
     (case stack st of
        indexObj # arrayObj # rest \<Rightarrow>
          (let oa = deref (heap st) arrayObj; oi = deref (heap st) indexObj;
               st' = st\<lparr>stack := rest\<rparr> in
           if getType oa \<noteq> ARRAY then Inl (runtime_error ''First operand must be an array'')
           else
             (case oi of
                IntegerObj i \<Rightarrow>
                  and_then (asArray oa) (\<lambda>xs.
                    if sint i < 0 \<or> nat (sint i) \<ge> length xs
                    then Inl (runtime_error ''Array index out of bounds'')
                    else and_then (arrayGet oa (nat (sint i))) (\<lambda>e. Inr (stack_push e st')))
              | _ \<Rightarrow> Inl (runtime_error ''Index must be an integer'')))
      | _ \<Rightarrow> Inl (runtime_error ''Stack underflow: need array and index for get''))"

text \<open>\<^verbatim>\<open>put\<close> writes through the handle it popped and pushes that handle back.\<close>

definition op_put :: "'d PSInterpreter \<Rightarrow> 'd result" where
  "op_put st =
     (case stack st of
        v # indexObj # arrayObj # rest \<Rightarrow>
          (let oa = deref (heap st) arrayObj; oi = deref (heap st) indexObj;
               st' = st\<lparr>stack := rest\<rparr> in
           if getType oa \<noteq> ARRAY then Inl (runtime_error ''First operand must be an array'')
           else
             (case oi of
                IntegerObj i \<Rightarrow>
                  and_then (asArray oa) (\<lambda>xs.
                    if sint i < 0 \<or> nat (sint i) \<ge> length xs
                    then Inl (runtime_error ''Array index out of bounds'')
                    else and_then (arraySet arrayObj (nat (sint i)) v st') (\<lambda>st2.
                           Inr (stack_push arrayObj st2)))
              | _ \<Rightarrow> Inl (runtime_error ''Index must be an integer'')))
      | _ \<Rightarrow> Inl (runtime_error ''Stack underflow: need array, index, and value for put''))"

text \<open>The length pushed for a string is the length of \<open>strip_parens\<close> of it.\<close>

definition strip_parens :: "string \<Rightarrow> string" where
  "strip_parens str =
     (if length str \<ge> 2 \<and> hd str = CHR ''('' \<and> last str = CHR '')''
      then take (length str - 2) (drop 1 str) else str)"

definition op_length :: "'d PSInterpreter \<Rightarrow> 'd result" where
  "op_length st =
     (case stack st of
        [] \<Rightarrow> Inl (runtime_error ''Stack underflow: need operand for length'')
      | obj # rest \<Rightarrow>
          (let st' = st\<lparr>stack := rest\<rparr> in
           case deref (heap st) obj of
             ArrayObj xs \<Rightarrow> Inr (push_new (IntegerObj (of_nat (length xs))) st')
           | StringObj str \<Rightarrow>
               Inr (push_new (IntegerObj (of_nat (length (strip_parens str)))) st')
           | _ \<Rightarrow> Inl (runtime_error ''Length operation not supported for this type'')))"

definition op_aload :: "'d PSInterpreter \<Rightarrow> 'd result" where
  "op_aload st =
     (case stack st of
        [] \<Rightarrow> Inl (runtime_error ''Stack underflow: need array for aload'')
      | arrayObj # rest \<Rightarrow>
          (let oa = deref (heap st) arrayObj; st' = st\<lparr>stack := rest\<rparr> in
           if getType oa \<noteq> ARRAY then Inl (runtime_error ''Operand must be an array'')
           else and_then (asArray oa) (\<lambda>xs.
                  Inr (stack_push arrayObj (fold stack_push xs st')))))"

text \<open>The loop \<^verbatim>\<open>for (size_t i = arraySize; i > 0; --i)\<close> of \<^verbatim>\<open>astore\<close>.\<close>

fun astore_loop :: "nat \<Rightarrow> PSObjectPtr \<Rightarrow> 'd PSInterpreter \<Rightarrow> 'd result" where
  "astore_loop 0 arrayObj st = Inr st"
| "astore_loop (Suc i) arrayObj st =
     (case stack_pop st of
        Inl e \<Rightarrow> Inl e
      | Inr (element, st1) \<Rightarrow>
          (case arraySet arrayObj i element st1 of
             Inl e \<Rightarrow> Inl e
           | Inr st2 \<Rightarrow> astore_loop i arrayObj st2))"

definition op_astore :: "'d PSInterpreter \<Rightarrow> 'd result" where
  "op_astore st =
     (case stack st of
        [] \<Rightarrow> Inl (runtime_error ''Stack underflow: need array for astore'')
      | arrayObj # rest \<Rightarrow>
          (let oa = deref (heap st) arrayObj; st' = st\<lparr>stack := rest\<rparr> in
           if getType oa \<noteq> ARRAY then Inl (runtime_error ''Operand must be an array'')
           else and_then (asArray oa) (\<lambda>xs.
                  if length (stack st') < length xs
                  then Inl (runtime_error ''Stack underflow: not enough elements for astore'')
                  else and_then (astore_loop (length xs) arrayObj st') (\<lambda>st2.
                         Inr (stack_push arrayObj st2)))))"

subsection \<open>Dictionaries\<close>

text \<open>Keys are STRING objects; a leading slash is removed.\<close>

definition strip_slash :: "string \<Rightarrow> string" where
  "strip_slash key = (case key of c # cs \<Rightarrow> if c = CHR ''/'' then cs else key | [] \<Rightarrow> key)"

definition op_dict :: "'d PSInterpreter \<Rightarrow> 'd result" where
  "op_dict st =
     (case stack st of
        [] \<Rightarrow> Inl (runtime_error ''Stack underflow: need size for dict'')
      | sizeObj # rest \<Rightarrow>
          (case deref (heap st) sizeObj of
             IntegerObj n \<Rightarrow>
               if sint n < 0 then Inl (runtime_error ''Dictionary size cannot be negative'')
               else Inr (push_new (DictionaryObj []) (st\<lparr>stack := rest\<rparr>))
           | _ \<Rightarrow> Inl (runtime_error ''Dictionary size must be an integer'')))"

definition op_def :: "'d PSInterpreter \<Rightarrow> 'd result" where
  "op_def st =
     (case stack st of
        v # keyObj # rest \<Rightarrow>
          (let st' = st\<lparr>stack := rest\<rparr> in
           case deref (heap st) keyObj of
             StringObj k \<Rightarrow>
               (case getCurrentDictionary st' of
                  None \<Rightarrow> Inl (runtime_error ''No current dictionary available'')
                | Some currentDict \<Rightarrow>
                    if getType (deref (heap st') currentDict) \<noteq> DICTIONARY
                    then Inl (runtime_error ''No current dictionary available'')
                    else dictPut currentDict (strip_slash k) v st')
           | _ \<Rightarrow> Inl (runtime_error ''Key must be a string''))
      | _ \<Rightarrow> Inl (runtime_error ''Stack underflow: need key and value for def''))"

definition op_load :: "'d PSInterpreter \<Rightarrow> 'd result" where
  "op_load st =
     (case stack st of
        [] \<Rightarrow> Inl (runtime_error ''Stack underflow: need key for load'')
      | keyObj # rest \<Rightarrow>
          (let st' = st\<lparr>stack := rest\<rparr> in
           case deref (heap st) keyObj of
             StringObj k \<Rightarrow>
               (case getCurrentDictionary st' of
                  None \<Rightarrow> Inl (runtime_error ''No current dictionary available'')
                | Some currentDict \<Rightarrow>
                    (let d = deref (heap st') currentDict; key = strip_slash k in
                     if getType d \<noteq> DICTIONARY
                     then Inl (runtime_error ''No current dictionary available'')
                     else if \<not> dictHas d key
                     then Inl (runtime_error (''Key not found in dictionary: '' @ key))
                     else and_then (dictGet d key) (\<lambda>v. Inr (stack_push v st'))))
           | _ \<Rightarrow> Inl (runtime_error ''Key must be a string'')))"

definition op_store :: "'d PSInterpreter \<Rightarrow> 'd result" where
  "op_store st =
     (case stack st of
        v # keyObj # dictObj # rest \<Rightarrow>
          (let st' = st\<lparr>stack := rest\<rparr> in
           if getType (deref (heap st) dictObj) \<noteq> DICTIONARY
           then Inl (runtime_error ''First operand must be a dictionary'')
           else
             (case deref (heap st) keyObj of
                StringObj k \<Rightarrow> dictPut dictObj (strip_slash k) v st'
              | _ \<Rightarrow> Inl (runtime_error ''Key must be a string'')))
      | _ \<Rightarrow> Inl (runtime_error ''Stack underflow: need dictionary, key, and value for store''))"

definition op_known :: "'d PSInterpreter \<Rightarrow> 'd result" where
  "op_known st =
     (case stack st of
        keyObj # dictObj # rest \<Rightarrow>
          (let st' = st\<lparr>stack := rest\<rparr>; d = deref (heap st) dictObj in
           if getType d \<noteq> DICTIONARY
           then Inl (runtime_error ''First operand must be a dictionary'')
           else
             (case deref (heap st) keyObj of
                StringObj k \<Rightarrow> Inr (push_new (BooleanObj (dictHas d (strip_slash k))) st')
              | _ \<Rightarrow> Inl (runtime_error ''Key must be a string'')))
      | _ \<Rightarrow> Inl (runtime_error ''Stack underflow: need dictionary and key for known''))"

text \<open>The loop of \<^verbatim>\<open>keys\<close> that allocates one STRING object per key.\<close>

fun make_keys :: "string list \<Rightarrow> 'd PSInterpreter \<Rightarrow> PSArray \<times> 'd PSInterpreter" where
  "make_keys [] st = ([], st)"
| "make_keys (key # ks) st =
     (case make_shared (StringObj (CHR ''/'' # key)) st of
        (p, st1) \<Rightarrow> (case make_keys ks st1 of (ps, st2) \<Rightarrow> (p # ps, st2)))"

definition op_keys :: "'d double_ops \<Rightarrow> 'd PSInterpreter \<Rightarrow> 'd result" where
  "op_keys fp st =
     (case stack st of
        [] \<Rightarrow> Inl (runtime_error ''Stack underflow: need dictionary for keys'')
      | dictObj # rest \<Rightarrow>
          (let st' = st\<lparr>stack := rest\<rparr>; d = deref (heap st) dictObj in
           if getType d \<noteq> DICTIONARY then Inl (runtime_error ''Operand must be a dictionary'')
           else and_then (dictKeys fp d) (\<lambda>keyList.
                  case make_keys keyList st' of
                    (keyArray, st1) \<Rightarrow> Inr (push_new (ArrayObj keyArray) st1))))"

subsection \<open>Procedures and control flow\<close>

text \<open>
  These operators call back into the interpreter.  \<open>exec\<close> stands for
  \<^verbatim>\<open>interpreter.executeToken\<close>; \<open>replay exec proc\<close> is the loop
  \<^verbatim>\<open>for (const auto& token : proc) interpreter.executeToken(token);\<close>
\<close>

type_synonym 'd executor = "string \<Rightarrow> 'd PSInterpreter \<Rightarrow> 'd result"

fun replay :: "'d executor \<Rightarrow> PSProcedure \<Rightarrow> 'd PSInterpreter \<Rightarrow> 'd result" where
  "replay exec [] st = Inr st"
| "replay exec (token # proc) st =
     (case exec token st of Inl e \<Rightarrow> Inl e | Inr st1 \<Rightarrow> replay exec proc st1)"

definition op_exec :: "'d executor \<Rightarrow> 'd PSInterpreter \<Rightarrow> 'd result" where
  "op_exec exec st =
     (case stack st of
        [] \<Rightarrow> Inl (runtime_error ''Stack underflow: need procedure for exec'')
      | procObj # rest \<Rightarrow>
          (let po = deref (heap st) procObj; st' = st\<lparr>stack := rest\<rparr> in
           if getType po \<noteq> PROCEDURE then Inl (runtime_error ''Operand must be a procedure'')
           else and_then (asProcedure po) (\<lambda>proc. replay exec proc st')))"

fun forall_loop :: "'d executor \<Rightarrow> PSProcedure \<Rightarrow> PSArray \<Rightarrow> 'd PSInterpreter \<Rightarrow> 'd result" where
  "forall_loop exec proc [] st = Inr st"
| "forall_loop exec proc (element # array) st =
     (case replay exec proc (stack_push element st) of
        Inl e \<Rightarrow> Inl e
      | Inr st1 \<Rightarrow> forall_loop exec proc array st1)"

definition op_forall :: "'d executor \<Rightarrow> 'd PSInterpreter \<Rightarrow> 'd result" where
  "op_forall exec st =
     (case stack st of
        procObj # arrayObj # rest \<Rightarrow>
          (let po = deref (heap st) procObj; oa = deref (heap st) arrayObj;
               st' = st\<lparr>stack := rest\<rparr> in
           if getType oa \<noteq> ARRAY then Inl (runtime_error ''First operand must be an array'')
           else if getType po \<noteq> PROCEDURE
           then Inl (runtime_error ''Second operand must be a procedure'')
           else and_then (asArray oa) (\<lambda>array. and_then (asProcedure po) (\<lambda>proc.
                  forall_loop exec proc array st')))
      | _ \<Rightarrow> Inl (runtime_error ''Stack underflow: need array and procedure for forall''))"

text \<open>The condition of \<^verbatim>\<open>if\<close> and \<^verbatim>\<open>ifelse\<close>: \<^verbatim>\<open>bool condition = false;\<close> followed by
  the three tests on Boolean, Integer and Real.\<close>

definition condition :: "'d double_ops \<Rightarrow> 'd PSObject \<Rightarrow> bool" where
  "condition fp conditionObj =
     (case conditionObj of
        BooleanObj b \<Rightarrow> b
      | IntegerObj i \<Rightarrow> i \<noteq> 0
      | RealObj d \<Rightarrow> \<not> d_eq fp d (d_of_int fp 0)
      | _ \<Rightarrow> False)"

definition op_if :: "'d double_ops \<Rightarrow> 'd executor \<Rightarrow> 'd PSInterpreter \<Rightarrow> 'd result" where
  "op_if fp exec st =
     (case stack st of
        procObj # conditionObj # rest \<Rightarrow>
          (let po = deref (heap st) procObj; st' = st\<lparr>stack := rest\<rparr> in
           if getType po \<noteq> PROCEDURE
           then Inl (runtime_error ''Second operand must be a procedure'')
           else if condition fp (deref (heap st) conditionObj)
           then and_then (asProcedure po) (\<lambda>proc. replay exec proc st')
           else Inr st')
      | _ \<Rightarrow> Inl (runtime_error ''Stack underflow: need condition and procedure for if''))"

definition op_ifelse :: "'d double_ops \<Rightarrow> 'd executor \<Rightarrow> 'd PSInterpreter \<Rightarrow> 'd result" where
  "op_ifelse fp exec st =
     (case stack st of
        elseProcObj # thenProcObj # conditionObj # rest \<Rightarrow>
          (let eo = deref (heap st) elseProcObj; to = deref (heap st) thenProcObj;
               st' = st\<lparr>stack := rest\<rparr> in
           if getType to \<noteq> PROCEDURE
           then Inl (runtime_error ''Second operand must be a procedure'')
           else if getType eo \<noteq> PROCEDURE
           then Inl (runtime_error ''Third operand must be a procedure'')
           else and_then
                  (if condition fp (deref (heap st) conditionObj)
                   then asProcedure to else asProcedure eo)
                  (\<lambda>proc. replay exec proc st'))
      | _ \<Rightarrow> Inl (runtime_error
                 ''Stack underflow: need condition and two procedures for ifelse''))"

fun repeat_loop :: "'d executor \<Rightarrow> PSProcedure \<Rightarrow> nat \<Rightarrow> 'd PSInterpreter \<Rightarrow> 'd result" where
  "repeat_loop exec proc 0 st = Inr st"
| "repeat_loop exec proc (Suc n) st =
     (case replay exec proc st of
        Inl e \<Rightarrow> Inl e
      | Inr st1 \<Rightarrow> repeat_loop exec proc n st1)"

definition op_repeat :: "'d executor \<Rightarrow> 'd PSInterpreter \<Rightarrow> 'd result" where
  "op_repeat exec st =
     (case stack st of
        procObj # countObj # rest \<Rightarrow>
          (let po = deref (heap st) procObj; st' = st\<lparr>stack := rest\<rparr> in
           if getType po \<noteq> PROCEDURE
           then Inl (runtime_error ''Second operand must be a procedure'')
           else
             (case deref (heap st) countObj of
                IntegerObj c \<Rightarrow>
                  if sint c < 0 then Inl (runtime_error ''Repeat count cannot be negative'')
                  else and_then (asProcedure po) (\<lambda>proc.
                         repeat_loop exec proc (nat (sint c)) st')
              | _ \<Rightarrow> Inl (runtime_error ''Count must be an integer'')))
      | _ \<Rightarrow> Inl (runtime_error ''Stack underflow: need count and procedure for repeat''))"

text \<open>
  The two loops of \<^verbatim>\<open>for\<close>:
  \<^verbatim>\<open>for (int i = start; i <= end; i += increment)\<close> for a positive increment and
  \<^verbatim>\<open>for (int i = start; i >= end; i += increment)\<close> for a negative one.  The counter is
  an \<^verbatim>\<open>int\<close> and \<^verbatim>\<open>i += increment\<close> wraps, so the test can hold for ever (with
  \<^verbatim>\<open>end = INT_MAX\<close>, for one).  The first argument bounds the number of passes through
  the body: \<open>op_for\<close> gives \<open>2 ^ 32\<close>, the number of values of the counter.  A loop that
  has passed its test that often has seen the counter come back to a value it had
  before with the test still holding; it never leaves through the test, and the model
  gives \<open>out_of_fuel\<close> for it.
\<close>

function for_up :: "int \<Rightarrow> 'd executor \<Rightarrow> PSProcedure \<Rightarrow> 32 word \<Rightarrow> 32 word \<Rightarrow> 32 word
    \<Rightarrow> 'd PSInterpreter \<Rightarrow> 'd result" where
  "for_up k exec proc i e increment st =
     (if \<not> sint i \<le> sint e then Inr st
      else if k \<le> 0 then Inl out_of_fuel
      else
        (case replay exec proc (push_new (IntegerObj i) st) of
           Inl err \<Rightarrow> Inl err
         | Inr st1 \<Rightarrow> for_up (k - 1) exec proc (i + increment) e increment st1))"
  by pat_completeness auto
termination
  by (relation "measure (\<lambda>(k, exec, proc, i, e, increment, st). nat k)") auto

function for_down :: "int \<Rightarrow> 'd executor \<Rightarrow> PSProcedure \<Rightarrow> 32 word \<Rightarrow> 32 word \<Rightarrow> 32 word
    \<Rightarrow> 'd PSInterpreter \<Rightarrow> 'd result" where
  "for_down k exec proc i e increment st =
     (if \<not> sint e \<le> sint i then Inr st
      else if k \<le> 0 then Inl out_of_fuel
      else
        (case replay exec proc (push_new (IntegerObj i) st) of
           Inl err \<Rightarrow> Inl err
         | Inr st1 \<Rightarrow> for_down (k - 1) exec proc (i + increment) e increment st1))"
  by pat_completeness auto
termination
  by (relation "measure (\<lambda>(k, exec, proc, i, e, increment, st). nat k)") auto

declare for_up.simps [simp del] for_down.simps [simp del]

definition op_for :: "'d executor \<Rightarrow> 'd PSInterpreter \<Rightarrow> 'd result" where
  "op_for exec st =
     (case stack st of
        procObj # incrementObj # endObj # startObj # rest \<Rightarrow>
          (let po = deref (heap st) procObj; st' = st\<lparr>stack := rest\<rparr> in
           if getType po \<noteq> PROCEDURE
           then Inl (runtime_error ''Fourth operand must be a procedure'')
           else
             (case (deref (heap st) startObj, deref (heap st) endObj,
                    deref (heap st) incrementObj) of
                (IntegerObj start, IntegerObj e, IntegerObj increment) \<Rightarrow>
                  if increment = 0 then Inl (runtime_error ''Increment cannot be zero'')
                  else and_then (asProcedure po) (\<lambda>proc.
                         if 0 < sint increment
                         then for_up (2 ^ 32) exec proc start e increment st'
                         else for_down (2 ^ 32) exec proc start e increment st')
              | _ \<Rightarrow> Inl (runtime_error ''Start, end, and increment must be integers'')))
      | _ \<Rightarrow> Inl (runtime_error
                 ''Stack underflow: need start, end, increment, and procedure for for''))"

subsection \<open>Graphics\<close>

definition is_number :: "'d PSObject \<Rightarrow> bool" where
  "is_number obj = (getType obj = REAL \<or> getType obj = INTEGER)"

text \<open>\<^verbatim>\<open>GraphicsState& gs = interpreter.getCurrentGraphicsState();\<close> followed by
  assignments to fields of \<open>gs\<close>.\<close>

definition update_gs :: "('d GraphicsState \<Rightarrow> 'd GraphicsState) \<Rightarrow> 'd PSInterpreter \<Rightarrow> 'd result" where
  "update_gs f st =
     (case graphicsStack st of
        [] \<Rightarrow> Inl undefined_behaviour
      | gs # gss \<Rightarrow> Inr (st\<lparr>graphicsStack := f gs # gss\<rparr>))"

text \<open>\<^verbatim>\<open>moveto\<close> and \<^verbatim>\<open>lineto\<close> are the same text up to the segment type.\<close>

definition path_to :: "string \<Rightarrow> SegmentType \<Rightarrow> 'd double_ops \<Rightarrow> 'd PSInterpreter \<Rightarrow> 'd result" where
  "path_to name seg fp st =
     (case stack st of
        yObj # xObj # rest \<Rightarrow>
          (let ox = deref (heap st) xObj; oy = deref (heap st) yObj;
               st' = st\<lparr>stack := rest\<rparr> in
           if \<not> is_number ox then Inl (runtime_error ''X coordinate must be a number'')
           else if \<not> is_number oy then Inl (runtime_error ''Y coordinate must be a number'')
           else and_then (asNumber fp ox) (\<lambda>x. and_then (asNumber fp oy) (\<lambda>y.
                  update_gs (\<lambda>gs. gs\<lparr>currentPoint := Point x y,
                      currentPath := currentPath gs @ [PathSegment seg [Point x y]]\<rparr>) st')))
      | _ \<Rightarrow> Inl (runtime_error (''Stack underflow: need x and y for '' @ name)))"

definition op_moveto :: "'d double_ops \<Rightarrow> 'd PSInterpreter \<Rightarrow> 'd result" where
  "op_moveto fp = path_to ''moveto'' MoveTo fp"

definition op_lineto :: "'d double_ops \<Rightarrow> 'd PSInterpreter \<Rightarrow> 'd result" where
  "op_lineto fp = path_to ''lineto'' LineTo fp"

definition op_closepath :: "'d PSInterpreter \<Rightarrow> 'd result" where
  "op_closepath st =
     update_gs (\<lambda>gs. gs\<lparr>currentPath := currentPath gs @ [PathSegment ClosePath []]\<rparr>) st"

text \<open>\<^verbatim>\<open>stroke\<close> and \<^verbatim>\<open>fill\<close> print the path and clear it.\<close>

definition op_stroke :: "'d PSInterpreter \<Rightarrow> 'd result" where
  "op_stroke st = update_gs (\<lambda>gs. gs\<lparr>currentPath := []\<rparr>) st"

definition op_fill :: "'d PSInterpreter \<Rightarrow> 'd result" where
  "op_fill st = update_gs (\<lambda>gs. gs\<lparr>currentPath := []\<rparr>) st"

definition op_newpath :: "'d PSInterpreter \<Rightarrow> 'd result" where
  "op_newpath st = update_gs (\<lambda>gs. gs\<lparr>currentPath := []\<rparr>) st"

text \<open>\<^verbatim>\<open>graphicsStack_.push_back(interpreter.getCurrentGraphicsState())\<close>: the copy
  constructor of \<^verbatim>\<open>GraphicsState\<close> copies every field, the path vector included.\<close>

definition op_gsave :: "'d PSInterpreter \<Rightarrow> 'd result" where
  "op_gsave st =
     (case graphicsStack st of
        [] \<Rightarrow> Inl undefined_behaviour
      | gs # gss \<Rightarrow> Inr (st\<lparr>graphicsStack := gs # gs # gss\<rparr>))"

definition op_grestore :: "'d PSInterpreter \<Rightarrow> 'd result" where
  "op_grestore st =
     (if length (graphicsStack st) \<le> 1
      then Inl (runtime_error ''Graphics state stack underflow'')
      else Inr (st\<lparr>graphicsStack := tl (graphicsStack st)\<rparr>))"

definition op_translate :: "'d double_ops \<Rightarrow> 'd PSInterpreter \<Rightarrow> 'd result" where
  "op_translate fp st =
     (case stack st of
        tyObj # txObj # rest \<Rightarrow>
          (let otx = deref (heap st) txObj; oty = deref (heap st) tyObj;
               st' = st\<lparr>stack := rest\<rparr> in
           if \<not> is_number otx then Inl (runtime_error ''TX must be a number'')
           else if \<not> is_number oty then Inl (runtime_error ''TY must be a number'')
           else and_then (asNumber fp otx) (\<lambda>tx. and_then (asNumber fp oty) (\<lambda>ty.
                  update_gs (\<lambda>gs.
                    (let m = ctm gs;
                         new_e = d_add fp (d_add fp (d_mul fp (m ! 0) tx) (d_mul fp (m ! 2) ty)) (m ! 4);
                         new_f = d_add fp (d_add fp (d_mul fp (m ! 1) tx) (d_mul fp (m ! 3) ty)) (m ! 5)
                     in gs\<lparr>ctm := m[4 := new_e, 5 := new_f]\<rparr>)) st')))
      | _ \<Rightarrow> Inl (runtime_error ''Stack underflow: need tx and ty for translate''))"

definition op_scale :: "'d double_ops \<Rightarrow> 'd PSInterpreter \<Rightarrow> 'd result" where
  "op_scale fp st =
     (case stack st of
        syObj # sxObj # rest \<Rightarrow>
          (let osx = deref (heap st) sxObj; osy = deref (heap st) syObj;
               st' = st\<lparr>stack := rest\<rparr> in
           if \<not> is_number osx then Inl (runtime_error ''SX must be a number'')
           else if \<not> is_number osy then Inl (runtime_error ''SY must be a number'')
           else and_then (asNumber fp osx) (\<lambda>sx. and_then (asNumber fp osy) (\<lambda>sy.
                  update_gs (\<lambda>gs.
                    (let m = ctm gs;
                         new_a = d_mul fp sx (m ! 0); new_b = d_mul fp sx (m ! 1);
                         new_c = d_mul fp sy (m ! 2); new_d = d_mul fp sy (m ! 3)
                     in gs\<lparr>ctm := m[0 := new_a, 1 := new_b, 2 := new_c, 3 := new_d]\<rparr>)) st')))
      | _ \<Rightarrow> Inl (runtime_error ''Stack underflow: need sx and sy for scale''))"

definition op_rotate :: "'d double_ops \<Rightarrow> 'd PSInterpreter \<Rightarrow> 'd result" where
  "op_rotate fp st =
     (case stack st of
        [] \<Rightarrow> Inl (runtime_error ''Stack underflow: need angle for rotate'')
      | angleObj # rest \<Rightarrow>
          (let oa = deref (heap st) angleObj; st' = st\<lparr>stack := rest\<rparr> in
           if \<not> is_number oa then Inl (runtime_error ''Angle must be a number'')
           else and_then (asNumber fp oa) (\<lambda>angle.
                  (let radians = d_div fp (d_mul fp angle (d_pi fp)) (d_of_int fp 180) in
                   case (d_cos fp radians, d_sin fp radians) of
                     (Some cos_a, Some sin_a) \<Rightarrow>
                       update_gs (\<lambda>gs.
                         (let m = ctm gs;
                              new_a = d_sub fp (d_mul fp cos_a (m ! 0)) (d_mul fp sin_a (m ! 2));
                              new_b = d_sub fp (d_mul fp cos_a (m ! 1)) (d_mul fp sin_a (m ! 3));
                              new_c = d_add fp (d_mul fp sin_a (m ! 0)) (d_mul fp cos_a (m ! 2));
                              new_d = d_add fp (d_mul fp sin_a (m ! 1)) (d_mul fp cos_a (m ! 3))
                          in gs\<lparr>ctm := m[0 := new_a, 1 := new_b, 2 := new_c, 3 := new_d]\<rparr>)) st'
                   | _ \<Rightarrow> Inl implementation_defined))))"

definition op_setrgbcolor :: "'d double_ops \<Rightarrow> 'd PSInterpreter \<Rightarrow> 'd result" where
  "op_setrgbcolor fp st =
     (case stack st of
        bObj # gObj # rObj # rest \<Rightarrow>
          (let or = deref (heap st) rObj; og = deref (heap st) gObj; ob = deref (heap st) bObj;
               st' = st\<lparr>stack := rest\<rparr> in
           if \<not> is_number or then Inl (runtime_error ''R must be a number'')
           else if \<not> is_number og then Inl (runtime_error ''G must be a number'')
           else if \<not> is_number ob then Inl (runtime_error ''B must be a number'')
           else and_then (asNumber fp or) (\<lambda>rv. and_then (asNumber fp og) (\<lambda>gv.
                and_then (asNumber fp ob) (\<lambda>bv.
                  update_gs (\<lambda>gs. gs\<lparr>color_r := rv, color_g := gv, color_b := bv\<rparr>) st'))))
      | _ \<Rightarrow> Inl (runtime_error ''Stack underflow: need r, g, b for setrgbcolor''))"

definition op_setlinewidth :: "'d double_ops \<Rightarrow> 'd PSInterpreter \<Rightarrow> 'd result" where
  "op_setlinewidth fp st =
     (case stack st of
        [] \<Rightarrow> Inl (runtime_error ''Stack underflow: need width for setlinewidth'')
      | widthObj # rest \<Rightarrow>
          (let ow = deref (heap st) widthObj; st' = st\<lparr>stack := rest\<rparr> in
           if \<not> is_number ow then Inl (runtime_error ''Width must be a number'')
           else and_then (asNumber fp ow) (\<lambda>w. update_gs (\<lambda>gs. gs\<lparr>lineWidth := w\<rparr>) st')))"

definition op_showpage :: "'d PSInterpreter \<Rightarrow> 'd result" where
  "op_showpage st = Inr st"

subsection \<open>The operator registry\<close>

text \<open>\<^verbatim>\<open>OperatorRegistry::OperatorRegistry()\<close>: the table of the registered names.  An
  operator receives the interpreter; in the model that is the interpreter's
  \<^verbatim>\<open>executeToken\<close> and its state.\<close>

type_synonym 'd OperatorFunction = "'d executor \<Rightarrow> 'd PSInterpreter \<Rightarrow> 'd result"

definition operators :: "'d double_ops \<Rightarrow> (string \<times> 'd OperatorFunction) list" where
  "operators fp =
     [(''add'', \<lambda>exec. op_add fp), (''sub'', \<lambda>exec. op_sub fp),
      (''mul'', \<lambda>exec. op_mul fp), (''div'', \<lambda>exec. op_div fp),
      (''dup'', \<lambda>exec. op_dup), (''pop'', \<lambda>exec. op_pop),
      (''exch'', \<lambda>exec. op_exch), (''clear'', \<lambda>exec. op_clear),
      (''stack'', \<lambda>exec. op_stack),
      (''show'', \<lambda>exec. op_show),
      (''eq'', \<lambda>exec. op_eq fp), (''ne'', \<lambda>exec. op_ne fp),
      (''lt'', \<lambda>exec. op_lt fp), (''le'', \<lambda>exec. op_le fp),
      (''gt'', \<lambda>exec. op_gt fp), (''ge'', \<lambda>exec. op_ge fp),
      (''array'', \<lambda>exec. op_array), (''get'', \<lambda>exec. op_get),
      (''put'', \<lambda>exec. op_put), (''length'', \<lambda>exec. op_length),
      (''aload'', \<lambda>exec. op_aload), (''astore'', \<lambda>exec. op_astore),
      (''dict'', \<lambda>exec. op_dict), (''def'', \<lambda>exec. op_def),
      (''load'', \<lambda>exec. op_load), (''store'', \<lambda>exec. op_store),
      (''known'', \<lambda>exec. op_known), (''keys'', \<lambda>exec. op_keys fp),
      (''exec'', op_exec), (''forall'', op_forall),
      (''if'', op_if fp), (''ifelse'', op_ifelse fp),
      (''repeat'', op_repeat), (''for'', op_for),
      (''moveto'', \<lambda>exec. op_moveto fp), (''lineto'', \<lambda>exec. op_lineto fp),
      (''closepath'', \<lambda>exec. op_closepath), (''stroke'', \<lambda>exec. op_stroke),
      (''fill'', \<lambda>exec. op_fill), (''newpath'', \<lambda>exec. op_newpath),
      (''gsave'', \<lambda>exec. op_gsave), (''grestore'', \<lambda>exec. op_grestore),
      (''translate'', \<lambda>exec. op_translate fp), (''scale'', \<lambda>exec. op_scale fp),
      (''rotate'', \<lambda>exec. op_rotate fp),
      (''setrgbcolor'', \<lambda>exec. op_setrgbcolor fp),
      (''setlinewidth'', \<lambda>exec. op_setlinewidth fp),
      (''showpage'', \<lambda>exec. op_showpage)]"

definition getOperator :: "'d double_ops \<Rightarrow> string \<Rightarrow> 'd OperatorFunction option" where
  "getOperator fp name = map_of (operators fp) name"

definition hasOperator :: "'d double_ops \<Rightarrow> string \<Rightarrow> bool" where
  "hasOperator fp name = (getOperator fp name \<noteq> None)"

section \<open>The tokenizer (ps\_parser.cpp)\<close>

text \<open>\<^verbatim>\<open>std::isspace\<close> and \<^verbatim>\<open>std::isdigit\<close> in the C locale.\<close>

definition isspace :: "char \<Rightarrow> bool" where
  "isspace c = (c = CHR '' '' \<or> c = CHR 0x09 \<or> c = CHR 0x0A \<or> c = CHR 0x0B
                \<or> c = CHR 0x0C \<or> c = CHR 0x0D)"

definition isdigit :: "char \<Rightarrow> bool" where
  "isdigit c = (48 \<le> (of_char c :: nat) \<and> (of_char c :: nat) \<le> 57)"

definition isWhitespace :: "char \<Rightarrow> bool" where
  "isWhitespace c = isspace c"

definition isDelimiter :: "char \<Rightarrow> bool" where
  "isDelimiter c = (isWhitespace c \<or> c = CHR ''('' \<or> c = CHR '')'' \<or> c = CHR ''[''
                    \<or> c = CHR '']'' \<or> c = CHR ''{'' \<or> c = CHR ''}'')"

record tokenizer =
  tokens :: "string list"
  currentToken :: string
  inString :: bool
  escapeNext :: bool
  inArray :: bool
  inDict :: bool
  inProc :: bool
  braceLevel :: int
  bracketLevel :: int
  dictLevel :: int

definition append_char :: "char \<Rightarrow> tokenizer \<Rightarrow> tokenizer" where
  "append_char c s = s\<lparr>currentToken := currentToken s @ [c]\<rparr>"

definition flush_token :: "tokenizer \<Rightarrow> tokenizer" where
  "flush_token s =
     (if currentToken s \<noteq> [] then s\<lparr>tokens := tokens s @ [currentToken s], currentToken := []\<rparr>
      else s)"

text \<open>
  The body of the loop over the input: from the current character \<open>c\<close>, the characters
  \<open>cs\<close> after it and the state, the characters still to read and the new state.  A
  comment (\<^verbatim>\<open>%\<close> outside every literal) skips to the next newline, and the flag
  \<^verbatim>\<open>inComment\<close> then consumes that newline: the characters up to and including the
  newline are dropped, and the token being read is not ended.
\<close>

definition tokenize_step :: "char \<Rightarrow> string \<Rightarrow> tokenizer \<Rightarrow> string \<times> tokenizer" where
  "tokenize_step c cs s =
     (if c = CHR ''%'' \<and> \<not> inString s \<and> \<not> escapeNext s \<and> \<not> inArray s \<and> \<not> inDict s
         \<and> \<not> inProc s
      then (drop 1 (dropWhile (\<lambda>x. x \<noteq> CHR 0x0A) cs), s)
      else if escapeNext s
      then (cs, (append_char c s)\<lparr>escapeNext := False\<rparr>)
      else if c = CHR 0x5C \<and> inString s
      then (cs, s\<lparr>escapeNext := True\<rparr>)
      else if c = CHR ''['' \<and> \<not> inString s \<and> \<not> escapeNext s \<and> \<not> inDict s \<and> \<not> inProc s
      then (cs, append_char c
             (s\<lparr>inArray := True,
                bracketLevel := (if \<not> inArray s then 1 else bracketLevel s + 1)\<rparr>))
      else if c = CHR '']'' \<and> inArray s \<and> \<not> inString s \<and> \<not> escapeNext s
      then (cs, append_char c
             (s\<lparr>bracketLevel := bracketLevel s - 1,
                inArray := (bracketLevel s - 1 \<noteq> 0)\<rparr>))
      else if c = CHR ''<'' \<and> cs \<noteq> [] \<and> hd cs = CHR ''<''
              \<and> \<not> inString s \<and> \<not> escapeNext s \<and> \<not> inArray s \<and> \<not> inProc s
      then (tl cs, append_char (hd cs) (append_char c
             (s\<lparr>inDict := True,
                dictLevel := (if \<not> inDict s then 1 else dictLevel s + 1)\<rparr>)))
      else if c = CHR ''>'' \<and> cs \<noteq> [] \<and> hd cs = CHR ''>''
              \<and> inDict s \<and> \<not> inString s \<and> \<not> escapeNext s
      then (tl cs, append_char (hd cs) (append_char c
             (s\<lparr>dictLevel := dictLevel s - 1,
                inDict := (dictLevel s - 1 \<noteq> 0)\<rparr>)))
      else if c = CHR ''{'' \<and> \<not> inString s \<and> \<not> escapeNext s \<and> \<not> inArray s \<and> \<not> inDict s
      then (cs, append_char c
             (s\<lparr>inProc := True,
                braceLevel := (if \<not> inProc s then 1 else braceLevel s + 1)\<rparr>))
      else if c = CHR ''}'' \<and> inProc s \<and> \<not> inString s \<and> \<not> escapeNext s
      then (cs, append_char c
             (s\<lparr>braceLevel := braceLevel s - 1,
                inProc := (braceLevel s - 1 \<noteq> 0)\<rparr>))
      else if c = CHR ''('' \<and> \<not> inString s \<and> \<not> inArray s \<and> \<not> inDict s \<and> \<not> inProc s
      then (cs, append_char c (s\<lparr>inString := True\<rparr>))
      else if c = CHR '')'' \<and> inString s
      then (cs, append_char c (s\<lparr>inString := False\<rparr>))
      else if inString s \<or> inArray s \<or> inDict s \<or> inProc s
      then (cs, append_char c s)
      else if isWhitespace c
      then (cs, flush_token s)
      else if isDelimiter c
      then (cs, (flush_token s)\<lparr>tokens := tokens (flush_token s) @ [[c]]\<rparr>)
      else (cs, append_char c s))"

function tokenize_loop :: "string \<Rightarrow> tokenizer \<Rightarrow> tokenizer" where
  "tokenize_loop [] s = s"
| "tokenize_loop (c # cs) s =
     tokenize_loop (fst (tokenize_step c cs s)) (snd (tokenize_step c cs s))"
  by pat_completeness auto
termination
proof (relation "measure (\<lambda>(inp, s). length inp)")
  fix c :: char and cs :: string and s :: tokenizer
  have "length (dropWhile (\<lambda>x. x \<noteq> CHR 0x0A) cs) \<le> length cs"
    by (rule length_dropWhile_le)
  then have "length (dropWhile (\<lambda>x. x \<noteq> CHR 0x0A) cs) - Suc 0 \<le> length cs"
    by simp
  then have "length (fst (tokenize_step c cs s)) \<le> length cs"
    unfolding tokenize_step_def by simp
  then show "((fst (tokenize_step c cs s), snd (tokenize_step c cs s)), c # cs, s)
      \<in> measure (\<lambda>(inp, s). length inp)"
    by (simp add: case_prod_beta)
qed simp

definition tokenize :: "string \<Rightarrow> string list" where
  "tokenize input =
     (let s = tokenize_loop input
                \<lparr>tokens = [], currentToken = [], inString = False, escapeNext = False,
                 inArray = False, inDict = False, inProc = False,
                 braceLevel = 0, bracketLevel = 0, dictLevel = 0\<rparr>
      in if currentToken s \<noteq> [] then tokens s @ [currentToken s] else tokens s)"

definition parse :: "string \<Rightarrow> string list" where
  "parse program = tokenize program"

section \<open>The executor (ps\_interpreter.cpp)\<close>

text \<open>\<^verbatim>\<open>std::stoi\<close>: leading white space, an optional sign and the longest run of decimal
  digits; an exception (\<open>None\<close>) when there is no digit or the value is not an
  \<^verbatim>\<open>int\<close>.  What follows the digits is ignored.  \<^verbatim>\<open>std::stod\<close> is a parameter.\<close>

definition stoi :: "string \<Rightarrow> int option" where
  "stoi str =
     (let s1 = dropWhile isspace str;
          neg = (s1 \<noteq> [] \<and> hd s1 = CHR ''-'');
          s2 = (if s1 \<noteq> [] \<and> (hd s1 = CHR ''-'' \<or> hd s1 = CHR ''+'') then tl s1 else s1);
          ds = takeWhile isdigit s2;
          v = foldl (\<lambda>a c. 10 * a + (int (of_char c) - 48)) 0 ds;
          r = (if neg then - v else v)
      in if ds = [] then None
         else if - (2 ^ 31) \<le> r \<and> r < 2 ^ 31 then Some r else None)"

text \<open>The constructor \<^verbatim>\<open>PSInterpreter()\<close>, on the store as it is: one empty default
  dictionary, one default graphics state, an empty operand stack.\<close>

definition PSInterpreter_new :: "'d double_ops \<Rightarrow> 'd PSObject list \<Rightarrow> 'd PSInterpreter" where
  "PSInterpreter_new fp h =
     \<lparr> heap = h @ [DictionaryObj []], stack = [], dictionaryStack = [length h],
       graphicsStack = [GraphicsState_init fp] \<rparr>"

text \<open>The look-up of a bare token in the current dictionary: only a PROCEDURE value is
  acted on; with any other value control falls through to the literal checks.\<close>

definition lookup_procedure :: "'d PSInterpreter \<Rightarrow> string \<Rightarrow> PSProcedure option" where
  "lookup_procedure st token =
     (case getCurrentDictionary st of
        None \<Rightarrow> None
      | Some currentDict \<Rightarrow>
          (let d = deref (heap st) currentDict in
           if getType d = DICTIONARY \<and> dictHas d token then
             (case dictGet d token of
                Inr proc \<Rightarrow>
                  (case deref (heap st) proc of ProcedureObj procedure \<Rightarrow> Some procedure
                   | _ \<Rightarrow> None)
              | Inl e \<Rightarrow> None)
           else None))"

text \<open>The number that a token stands for: \<^verbatim>\<open>std::stod\<close> for a token with a point and
  \<^verbatim>\<open>std::stoi\<close> for any other, inside \<^verbatim>\<open>try { ... } catch (...) { }\<close>.\<close>

definition parse_number :: "'d double_ops \<Rightarrow> string \<Rightarrow> 'd PSObject outcome" where
  "parse_number fp token =
     (if CHR ''.'' \<in> set token then
        (case stod fp token of
           Returns v \<Rightarrow> Returns (RealObj v)
         | Throws \<Rightarrow> Throws
         | Unspecified \<Rightarrow> Unspecified)
      else
        (case stoi token of
           Some v \<Rightarrow> Returns (IntegerObj (word_of_int v))
         | None \<Rightarrow> Throws))"

definition enclosed :: "string \<Rightarrow> string \<Rightarrow> string \<Rightarrow> bool" where
  "enclosed l r token =
     (length token \<ge> length l + length r \<and> take (length l) token = l
      \<and> drop (length token - length r) token = r)"

definition interior :: "nat \<Rightarrow> string \<Rightarrow> string" where
  "interior k token = take (length token - 2 * k) (drop k token)"

text \<open>The element loop of an array literal: each element token runs in a temporary
  interpreter of its own (which shares the store), and the top of its stack, if any, is
  the element.\<close>

fun array_elements :: "'d double_ops \<Rightarrow> 'd executor \<Rightarrow> string list \<Rightarrow> PSArray
    \<Rightarrow> 'd PSObject list \<Rightarrow> error + (PSArray \<times> 'd PSObject list)" where
  "array_elements fp exec [] array h = Inr (array, h)"
| "array_elements fp exec (elementToken # ts) array h =
     (if elementToken = [] then array_elements fp exec ts array h
      else
        (case exec elementToken (PSInterpreter_new fp h) of
           Inl e \<Rightarrow> Inl e
         | Inr tempInterpreter \<Rightarrow>
             array_elements fp exec ts
               (case stack tempInterpreter of [] \<Rightarrow> array | p # _ \<Rightarrow> array @ [p])
               (heap tempInterpreter)))"

text \<open>The pair loop of a dictionary literal; a last token without a partner is ignored.\<close>

fun dict_entries :: "'d double_ops \<Rightarrow> 'd executor \<Rightarrow> string list \<Rightarrow> PSDictionary
    \<Rightarrow> 'd PSObject list \<Rightarrow> error + (PSDictionary \<times> 'd PSObject list)" where
  "dict_entries fp exec (key # valueToken # ts) dict h =
     (case exec valueToken (PSInterpreter_new fp h) of
        Inl e \<Rightarrow> Inl e
      | Inr tempInterpreter \<Rightarrow>
          dict_entries fp exec ts
            (case stack tempInterpreter of
               [] \<Rightarrow> dict
             | p # _ \<Rightarrow> AList.update (strip_slash key) p dict)
            (heap tempInterpreter))"
| "dict_entries fp exec ts dict h = Inr (dict, h)"

text \<open>
  \<^verbatim>\<open>PSInterpreter::executeToken\<close>.  The first argument after the double operations bounds
  the depth of nested calls of \<^verbatim>\<open>executeToken\<close> (a procedure that calls itself without
  end overflows the C++ stack): at depth 0 the result is \<open>out_of_fuel\<close>.
\<close>

fun executeToken :: "'d double_ops \<Rightarrow> nat \<Rightarrow> string \<Rightarrow> 'd PSInterpreter \<Rightarrow> 'd result" where
  "executeToken fp 0 token st = Inl out_of_fuel"
| "executeToken fp (Suc n) token st =
     (if token = [] then Inr st
      else if hasOperator fp token then
        (case getOperator fp token of
           Some op \<Rightarrow> op (\<lambda>t s. executeToken fp n t s) st
         | None \<Rightarrow> Inr st)
      else if length token > 1 \<and> hd token = CHR ''/''
      then Inr (push_new (StringObj token) st)
      else
        (case lookup_procedure st token of
           Some procedure \<Rightarrow> replay (\<lambda>t s. executeToken fp n t s) procedure st
         | None \<Rightarrow>
             (case parse_number fp token of
                Returns obj \<Rightarrow> Inr (push_new obj st)
              | Unspecified \<Rightarrow> Inl implementation_defined
              | Throws \<Rightarrow>
                  if enclosed ''('' '')'' token
                  then Inr (push_new (StringObj token) st)
                  else if enclosed ''['' '']'' token
                  then
                    (case array_elements fp (\<lambda>t s. executeToken fp n t s)
                            (parse (interior 1 token)) [] (heap st) of
                       Inl e \<Rightarrow> Inl e
                     | Inr (array, h) \<Rightarrow>
                         Inr (push_new (ArrayObj array) (st\<lparr>heap := h\<rparr>)))
                  else if enclosed ''<<'' ''>>'' token
                  then
                    (case dict_entries fp (\<lambda>t s. executeToken fp n t s)
                            (parse (interior 2 token)) [] (heap st) of
                       Inl e \<Rightarrow> Inl e
                     | Inr (dict, h) \<Rightarrow>
                         Inr (push_new (DictionaryObj dict) (st\<lparr>heap := h\<rparr>)))
                  else if enclosed ''{'' ''}'' token
                  then Inr (push_new (ProcedureObj
                         (filter (\<lambda>t. t \<noteq> []) (parse (interior 1 token)))) st)
                  else if token = ''true'' then Inr (push_new (BooleanObj True) st)
                  else if token = ''false'' then Inr (push_new (BooleanObj False) st)
                  else Inr (push_new (StringObj token) st))))"

text \<open>\<^verbatim>\<open>PSInterpreter::execute\<close>: tokenize the program and execute the tokens in order.\<close>

definition execute :: "'d double_ops \<Rightarrow> nat \<Rightarrow> string \<Rightarrow> 'd PSInterpreter \<Rightarrow> 'd result" where
  "execute fp n program st = replay (executeToken fp n) (parse program) st"

section \<open>Cross-reference streams (pdf\_parser.cpp)\<close>

text \<open>
  The decompressed stream is a \<^verbatim>\<open>std::string\<close>; \<^verbatim>\<open>static_cast<uint8_t>(data[i])\<close> is
  \<open>of_char (data ! i)\<close>.  The three readers compute in \<^verbatim>\<open>int\<close> and return
  \<^verbatim>\<open>uint32_t\<close>, \<^verbatim>\<open>uint16_t\<close> and \<^verbatim>\<open>uint8_t\<close>; the model keeps the value in 32 bits,
  which the narrower return types do not change.  A reader whose last byte is not inside
  the data returns 0.
\<close>

definition readBigEndian32 :: "string \<Rightarrow> nat \<Rightarrow> 32 word" where
  "readBigEndian32 data offset =
     (if offset + 3 \<ge> length data then 0
      else push_bit 24 (of_char (data ! offset)) OR push_bit 16 (of_char (data ! (offset + 1)))
           OR push_bit 8 (of_char (data ! (offset + 2))) OR of_char (data ! (offset + 3)))"

definition readBigEndian16 :: "string \<Rightarrow> nat \<Rightarrow> 32 word" where
  "readBigEndian16 data offset =
     (if offset + 1 \<ge> length data then 0
      else push_bit 8 (of_char (data ! offset)) OR of_char (data ! (offset + 1)))"

definition readBigEndian8 :: "string \<Rightarrow> nat \<Rightarrow> 32 word" where
  "readBigEndian8 data offset =
     (if offset \<ge> length data then 0 else of_char (data ! offset))"

text \<open>\<^verbatim>\<open>decompressed[i]\<close> without a check, as the three-byte fields are read: the
  terminating zero at \<open>i = size\<close>, undefined beyond.\<close>

definition char_at :: "string \<Rightarrow> nat \<Rightarrow> error + 32 word" where
  "char_at data i =
     (if i < length data then Inr (of_char (data ! i))
      else if i = length data then Inr 0
      else Inl undefined_behaviour)"

text \<open>\<^verbatim>\<open>int type\<close>: widths 1, 2 and 4 are read, any other width leaves 0.\<close>

definition read_type :: "nat \<Rightarrow> string \<Rightarrow> nat \<Rightarrow> 32 word" where
  "read_type typeWidth data dataOffset =
     (if typeWidth = 1 then readBigEndian8 data dataOffset
      else if typeWidth = 2 then readBigEndian16 data dataOffset
      else if typeWidth = 4 then readBigEndian32 data dataOffset
      else 0)"

text \<open>\<^verbatim>\<open>uint32_t field1\<close> and \<^verbatim>\<open>field2\<close>: widths 1 to 4 are read, any other width
  leaves 0.\<close>

definition read_field :: "nat \<Rightarrow> string \<Rightarrow> nat \<Rightarrow> error + 32 word" where
  "read_field width data dataOffset =
     (if width = 1 then Inr (readBigEndian8 data dataOffset)
      else if width = 2 then Inr (readBigEndian16 data dataOffset)
      else if width = 3 then
        and_then (char_at data dataOffset) (\<lambda>b0.
        and_then (char_at data (dataOffset + 1)) (\<lambda>b1.
        and_then (char_at data (dataOffset + 2)) (\<lambda>b2.
          Inr (push_bit 16 b0 OR push_bit 8 b1 OR b2))))
      else if width = 4 then Inr (readBigEndian32 data dataOffset)
      else Inr 0)"

text \<open>
  The decoding loop of \<^verbatim>\<open>PDFParser::parseFile\<close>.  The state is \<^verbatim>\<open>dataOffset\<close> and
  \<^verbatim>\<open>objectOffsets\<close> (a \<^verbatim>\<open>std::map<int, size_t>\<close>, here an association list with
  unique keys).  The widths and the \<^verbatim>\<open>Index\<close> entries are read from the dictionary with
  the pattern \<^verbatim>\<open>\d+\<close>, so they are not negative.  An \<^verbatim>\<open>int\<close> key is an integer
  between \<open>- 2 ^ 31\<close> and \<open>2 ^ 31 - 1\<close>: \<open>wrap_int\<close> is the value that 32-bit
  arithmetic leaves for a mathematical result.
\<close>

definition wrap_int :: "int \<Rightarrow> int" where
  "wrap_int v = (v + 2 ^ 31) mod 2 ^ 32 - 2 ^ 31"

type_synonym xref_state = "nat \<times> (int \<times> nat) list"

definition xref_entry :: "nat \<Rightarrow> nat \<Rightarrow> nat \<Rightarrow> string \<Rightarrow> int \<Rightarrow> xref_state \<Rightarrow> error + xref_state" where
  "xref_entry typeWidth field1Width field2Width decompressed objNum s =
     (case s of (dataOffset, objectOffsets) \<Rightarrow>
        (let type = read_type typeWidth decompressed dataOffset;
             dataOffset1 = dataOffset + typeWidth
         in and_then (read_field field1Width decompressed dataOffset1) (\<lambda>field1.
            (let dataOffset2 = dataOffset1 + field1Width
             in and_then (read_field field2Width decompressed dataOffset2) (\<lambda>field2.
                  Inr (dataOffset2 + field2Width,
                       if type = 0 then objectOffsets
                       else if type = 1 then AList.update objNum (unat field1) objectOffsets
                       else objectOffsets))))))"

text \<open>\<^verbatim>\<open>for (int i = 0; i < count; ++i)\<close> with \<^verbatim>\<open>int objNum = firstObj + i\<close>, on the
  list of the object numbers still to come (\<open>section_objects\<close> below).\<close>

fun xref_entries :: "nat \<Rightarrow> nat \<Rightarrow> nat \<Rightarrow> string \<Rightarrow> int list \<Rightarrow> xref_state \<Rightarrow> error + xref_state" where
  "xref_entries tw f1w f2w data [] s = Inr s"
| "xref_entries tw f1w f2w data (objNum # ns) s =
     (case xref_entry tw f1w f2w data objNum s of
        Inl e \<Rightarrow> Inl e
      | Inr s1 \<Rightarrow> xref_entries tw f1w f2w data ns s1)"

definition section_objects :: "int \<times> nat \<Rightarrow> int list" where
  "section_objects p =
     (case p of (firstObj, count) \<Rightarrow> map (\<lambda>i. wrap_int (firstObj + int i)) [0..<count])"

text \<open>\<^verbatim>\<open>for (const auto& [firstObj, count] : index)\<close>\<close>

fun xref_sections :: "nat \<Rightarrow> nat \<Rightarrow> nat \<Rightarrow> string \<Rightarrow> (int \<times> nat) list \<Rightarrow> xref_state
    \<Rightarrow> error + xref_state" where
  "xref_sections tw f1w f2w data [] s = Inr s"
| "xref_sections tw f1w f2w data (p # index) s =
     (case xref_entries tw f1w f2w data (section_objects p) s of
        Inl e \<Rightarrow> Inl e
      | Inr s1 \<Rightarrow> xref_sections tw f1w f2w data index s1)"

text \<open>The whole decoding: \<^verbatim>\<open>wArrayObj[0]\<close>, \<^verbatim>\<open>[1]\<close> and \<^verbatim>\<open>[2]\<close> are read without a
  check of the size of \<^verbatim>\<open>W\<close>.\<close>

definition xref_stream_offsets :: "nat list \<Rightarrow> string \<Rightarrow> (int \<times> nat) list \<Rightarrow> error + (int \<times> nat) list" where
  "xref_stream_offsets wArrayObj decompressed index =
     (case wArrayObj of
        typeWidth # field1Width # field2Width # _ \<Rightarrow>
          and_then (xref_sections typeWidth field1Width field2Width decompressed index (0, []))
            (\<lambda>s. Inr (snd s))
      | _ \<Rightarrow> Inl undefined_behaviour)"

text \<open>
  The decoding in the words of the specification: the data is a concatenation of
  records of \<open>w0 + w1 + w2\<close> bytes, one per declared object in the order of \<^verbatim>\<open>Index\<close>
  (a range \<open>(first, count)\<close> declares the objects \<open>first\<close>, \<open>first + 1\<close>, ... in the
  integers); a record is three big-endian unsigned integers; a record of type 1 adds
  its object number with field 1 as the offset, a record of any other type adds nothing.
\<close>

definition spec_objects :: "int \<times> nat \<Rightarrow> int list" where
  "spec_objects p = (case p of (first, count) \<Rightarrow> map (\<lambda>i. first + int i) [0..<count])"

definition big_endian :: "string \<Rightarrow> 32 word" where
  "big_endian bs = foldl (\<lambda>a c. push_bit 8 a OR of_char c) 0 bs"

definition xref_record :: "nat \<Rightarrow> string \<Rightarrow> nat \<Rightarrow> string" where
  "xref_record rsize data k = take rsize (drop (k * rsize) data)"

fun spec_records :: "nat \<Rightarrow> nat \<Rightarrow> nat \<Rightarrow> string \<Rightarrow> nat \<Rightarrow> int list \<Rightarrow> (int \<times> nat) list
    \<Rightarrow> (int \<times> nat) list" where
  "spec_records w0 w1 w2 data k [] m = m"
| "spec_records w0 w1 w2 data k (objNum # ns) m =
     (let r = xref_record (w0 + w1 + w2) data k
      in spec_records w0 w1 w2 data (Suc k) ns
           (if big_endian (take w0 r) = 1
            then AList.update objNum (unat (big_endian (take w1 (drop w0 r)))) m
            else m))"

definition spec_offsets :: "nat \<Rightarrow> nat \<Rightarrow> nat \<Rightarrow> string \<Rightarrow> (int \<times> nat) list \<Rightarrow> (int \<times> nat) list" where
  "spec_offsets w0 w1 w2 data index =
     spec_records w0 w1 w2 data 0 (concat (map spec_objects index)) []"

text \<open>
  The file also holds a second decoder, \<^verbatim>\<open>parseXRefStreamData\<close>, which no function
  calls.  It tests the size of \<^verbatim>\<open>W\<close>, leaves the loop of a section when the data is
  used up, and dispatches differently: it skips type 1 and records field 1 for type 2.
  \<open>None\<close> for \<open>W\<close> stands for a dictionary without an array under that key.
\<close>

definition helper_entry :: "nat \<Rightarrow> nat \<Rightarrow> nat \<Rightarrow> string \<Rightarrow> int \<Rightarrow> xref_state \<Rightarrow> error + xref_state" where
  "helper_entry typeWidth field1Width field2Width decompressedData objNum s =
     (case s of (dataOffset, objectOffsets) \<Rightarrow>
        (let type = read_type typeWidth decompressedData dataOffset;
             dataOffset1 = dataOffset + typeWidth
         in and_then (read_field field1Width decompressedData dataOffset1) (\<lambda>field1.
            (let dataOffset2 = dataOffset1 + field1Width
             in and_then (read_field field2Width decompressedData dataOffset2) (\<lambda>field2.
                  Inr (dataOffset2 + field2Width,
                       if type = 1 then objectOffsets
                       else if type = 2 then AList.update objNum (unat field1) objectOffsets
                       else objectOffsets))))))"

fun helper_entries :: "nat \<Rightarrow> nat \<Rightarrow> nat \<Rightarrow> string \<Rightarrow> int list \<Rightarrow> xref_state \<Rightarrow> error + xref_state" where
  "helper_entries tw f1w f2w data [] s = Inr s"
| "helper_entries tw f1w f2w data (objNum # ns) s =
     (if fst s \<ge> length data then Inr s
      else
        (case helper_entry tw f1w f2w data objNum s of
           Inl e \<Rightarrow> Inl e
         | Inr s1 \<Rightarrow> helper_entries tw f1w f2w data ns s1))"

fun helper_sections :: "nat \<Rightarrow> nat \<Rightarrow> nat \<Rightarrow> string \<Rightarrow> (int \<times> nat) list \<Rightarrow> xref_state
    \<Rightarrow> error + xref_state" where
  "helper_sections tw f1w f2w data [] s = Inr s"
| "helper_sections tw f1w f2w data (p # index) s =
     (case helper_entries tw f1w f2w data (section_objects p) s of
        Inl e \<Rightarrow> Inl e
      | Inr s1 \<Rightarrow> helper_sections tw f1w f2w data index s1)"

definition parseXRefStreamData :: "string \<Rightarrow> nat list option \<Rightarrow> (int \<times> nat) list
    \<Rightarrow> error + (int \<times> nat) list" where
  "parseXRefStreamData decompressedData w index =
     (case w of
        None \<Rightarrow> Inr []
      | Some wArray \<Rightarrow>
          (case wArray of
             typeWidth # field1Width # field2Width # _ \<Rightarrow>
               and_then (helper_sections typeWidth field1Width field2Width decompressedData
                           index (0, []))
                 (\<lambda>s. Inr (snd s))
           | _ \<Rightarrow> Inr []))"

text \<open>The decompressed bytes of scenario E6, a stream whose type field is three bytes
  wide, and a stream whose field 1 is five bytes wide.\<close>

definition E6_bytes :: string where
  "E6_bytes = [CHR 0x00, CHR 0x00, CHR 0x00, CHR 0x00,
               CHR 0x01, CHR 0x00, CHR 0x0F, CHR 0x00,
               CHR 0x01, CHR 0x00, CHR 0x5C, CHR 0x00]"

definition wide_type_bytes :: string where
  "wide_type_bytes = [CHR 0x00, CHR 0x00, CHR 0x01, CHR 0x00, CHR 0x0F, CHR 0x00]"

definition wide_field_bytes :: string where
  "wide_field_bytes = [CHR 0x01, CHR 0x00, CHR 0x00, CHR 0x00, CHR 0x00, CHR 0x0F, CHR 0x00]"

section \<open>Reachable states\<close>

text \<open>The states an interpreter can be in: as constructed (on any store, since the
  temporary interpreters of the literals are constructed in the middle of a run), or
  after a call of \<^verbatim>\<open>executeToken\<close> that returned.\<close>

inductive reachable :: "'d double_ops \<Rightarrow> 'd PSInterpreter \<Rightarrow> bool" for fp :: "'d double_ops" where
  reachable_new: "reachable fp (PSInterpreter_new fp h)"
| reachable_step:
    "reachable fp st \<Longrightarrow> executeToken fp n token st = Inr st' \<Longrightarrow> reachable fp st'"

text \<open>A run that returned has left the graphics stack non-empty; an executor keeps the
  graphics stack non-empty when each of its runs from such a state does.\<close>

definition gs_ok :: "'d result \<Rightarrow> bool" where
  "gs_ok r = (case r of Inl e \<Rightarrow> True | Inr s \<Rightarrow> graphicsStack s \<noteq> [])"

definition keeps_gs :: "'d executor \<Rightarrow> bool" where
  "keeps_gs exec = (\<forall>t s. graphicsStack s \<noteq> [] \<longrightarrow> gs_ok (exec t s))"

section \<open>IEEE-754 doubles\<close>

text \<open>
  The theorems below hold for every \<open>double_ops\<close>.  To run the model on concrete
  programs the examples use the \<^verbatim>\<open>double\<close> of the usual targets (\<open>example_ops\<close>):
  IEEE-754 binary64, each operation of the C++ text rounded on its own, to nearest with
  ties to even.

  A double is a NaN (sign and payload of a NaN are not distinguished), an infinity, or a
  finite value \<open>(-1)\<^sup>s \<cdot> m \<cdot> 2\<^sup>e\<close>, written \<open>Finite s m e\<close>, in the form in which the
  format holds it: \<open>2\<^sup>5\<^sup>2 \<le> m < 2\<^sup>5\<^sup>3\<close> and \<open>- 1074 \<le> e \<le> 971\<close> for a normal number, and
  \<open>0 \<le> m < 2\<^sup>5\<^sup>2\<close> and \<open>e = - 1074\<close> for a subnormal number or a zero.  (The models of
  the operations compute in the integers; their arguments \<open>n\<close> and \<open>d\<close> stand for a
  non-negative numerator and a positive denominator.)
\<close>

datatype double = Finite bool int int | Infinity bool | NaN

text \<open>The number of binary digits of \<open>n\<close>, and \<open>\<lfloor>log\<^sub>2 (n / d)\<rfloor>\<close> for positive \<open>n\<close> and
  \<open>d\<close>: with \<open>l\<close> the difference of the numbers of digits, \<open>n / d\<close> is between
  \<open>2\<^sup>l\<^sup>-\<^sup>1\<close> and \<open>2\<^sup>l\<^sup>+\<^sup>1\<close>.\<close>

function bitlen :: "int \<Rightarrow> int" where
  "bitlen n = (if n \<le> 0 then 0 else 1 + bitlen (n div 2))"
  by pat_completeness auto
termination
  by (relation "measure nat") auto

declare bitlen.simps [simp del]

definition floor_log2 :: "int \<Rightarrow> int \<Rightarrow> int" where
  "floor_log2 n d =
     (let l = bitlen n - bitlen d
      in if (if 0 \<le> l then d * 2 ^ nat l \<le> n else d \<le> n * 2 ^ nat (- l)) then l else l - 1)"

text \<open>The integer nearest to \<open>n / d\<close>, the even one of the two when \<open>n / d\<close> is half-way
  between two integers.\<close>

definition round_half_even :: "int \<Rightarrow> int \<Rightarrow> int" where
  "round_half_even n d =
     (let q = n div d; r = n mod d
      in if d < 2 * r \<or> (2 * r = d \<and> odd q) then q + 1 else q)"

text \<open>
  Rounding: the double nearest to \<open>(-1)\<^sup>s \<cdot> n / d\<close> (for \<open>d > 0\<close>).  The exponent \<open>e\<close> is
  the one that leaves 53 binary digits to the significand, but not below \<open>- 1074\<close>; the
  significand is \<open>n / d / 2\<^sup>e\<close> rounded to an integer.  Rounding up to \<open>2\<^sup>5\<^sup>3\<close> moves to
  the next exponent, and a result beyond the largest double is an infinity.
\<close>

definition round_double :: "bool \<Rightarrow> int \<Rightarrow> int \<Rightarrow> double" where
  "round_double s n d =
     (if n = 0 then Finite s 0 (- 1074)
      else
        (let e = max (floor_log2 n d - 52) (- 1074);
             m = round_half_even (n * 2 ^ nat (- e)) (d * 2 ^ nat e);
             e' = (if m = 2 ^ 53 then e + 1 else e);
             m' = (if m = 2 ^ 53 then 2 ^ 52 else m)
         in if 971 < e' then Infinity s else Finite s m' e'))"

text \<open>The double nearest to \<open>(-1)\<^sup>s \<cdot> n / d \<cdot> 2\<^sup>x\<close>.\<close>

definition round_scaled :: "bool \<Rightarrow> int \<Rightarrow> int \<Rightarrow> int \<Rightarrow> double" where
  "round_scaled s n d x = round_double s (n * 2 ^ nat x) (d * 2 ^ nat (- x))"

text \<open>The conversion of an \<^verbatim>\<open>int\<close>, which is exact.\<close>

definition double_of_int :: "int \<Rightarrow> double" where
  "double_of_int i = round_double (i < 0) \<bar>i\<bar> 1"

definition signed_value :: "bool \<Rightarrow> int \<Rightarrow> int" where
  "signed_value s m = (if s then - m else m)"

fun double_neg :: "double \<Rightarrow> double" where
  "double_neg (Finite s m e) = Finite (\<not> s) m e"
| "double_neg (Infinity s) = Infinity (\<not> s)"
| "double_neg NaN = NaN"

text \<open>\<^verbatim>\<open>x + y\<close>.  The sum of two finite values is computed exactly, on their common
  exponent, and rounded; an exact sum of zero is \<open>+0\<close> unless both operands are \<open>-0\<close>.\<close>

fun double_add :: "double \<Rightarrow> double \<Rightarrow> double" where
  "double_add (Finite s1 m1 e1) (Finite s2 m2 e2) =
     (let e = min e1 e2;
          v = signed_value s1 m1 * 2 ^ nat (e1 - e) + signed_value s2 m2 * 2 ^ nat (e2 - e)
      in if v = 0 then Finite (s1 \<and> s2) 0 (- 1074)
         else round_scaled (v < 0) \<bar>v\<bar> 1 e)"
| "double_add (Infinity s1) (Infinity s2) = (if s1 = s2 then Infinity s1 else NaN)"
| "double_add (Infinity s1) (Finite s2 m2 e2) = Infinity s1"
| "double_add (Finite s1 m1 e1) (Infinity s2) = Infinity s2"
| "double_add NaN y = NaN"
| "double_add x NaN = NaN"

text \<open>\<^verbatim>\<open>x - y\<close> is \<^verbatim>\<open>x + (-y)\<close> in IEEE-754.\<close>

definition double_sub :: "double \<Rightarrow> double \<Rightarrow> double" where
  "double_sub x y = double_add x (double_neg y)"

fun double_mul :: "double \<Rightarrow> double \<Rightarrow> double" where
  "double_mul (Finite s1 m1 e1) (Finite s2 m2 e2) =
     round_scaled (s1 \<noteq> s2) (m1 * m2) 1 (e1 + e2)"
| "double_mul (Infinity s1) (Infinity s2) = Infinity (s1 \<noteq> s2)"
| "double_mul (Infinity s1) (Finite s2 m2 e2) = (if m2 = 0 then NaN else Infinity (s1 \<noteq> s2))"
| "double_mul (Finite s1 m1 e1) (Infinity s2) = (if m1 = 0 then NaN else Infinity (s1 \<noteq> s2))"
| "double_mul NaN y = NaN"
| "double_mul x NaN = NaN"

fun double_div :: "double \<Rightarrow> double \<Rightarrow> double" where
  "double_div (Finite s1 m1 e1) (Finite s2 m2 e2) =
     (if m2 = 0 then (if m1 = 0 then NaN else Infinity (s1 \<noteq> s2))
      else round_scaled (s1 \<noteq> s2) m1 m2 (e1 - e2))"
| "double_div (Infinity s1) (Infinity s2) = NaN"
| "double_div (Infinity s1) (Finite s2 m2 e2) = Infinity (s1 \<noteq> s2)"
| "double_div (Finite s1 m1 e1) (Infinity s2) = Finite (s1 \<noteq> s2) 0 (- 1074)"
| "double_div NaN y = NaN"
| "double_div x NaN = NaN"

text \<open>\<^verbatim>\<open>x < y\<close>, \<^verbatim>\<open>x == y\<close> and \<^verbatim>\<open>x <= y\<close>: comparisons of the values, false when an
  operand is a NaN; the two zeros are equal.\<close>

fun double_less :: "double \<Rightarrow> double \<Rightarrow> bool" where
  "double_less (Finite s1 m1 e1) (Finite s2 m2 e2) =
     (signed_value s1 m1 * 2 ^ nat (e1 - min e1 e2) < signed_value s2 m2 * 2 ^ nat (e2 - min e1 e2))"
| "double_less (Infinity s1) (Infinity s2) = (s1 \<and> \<not> s2)"
| "double_less (Infinity s1) (Finite s2 m2 e2) = s1"
| "double_less (Finite s1 m1 e1) (Infinity s2) = (\<not> s2)"
| "double_less NaN y = False"
| "double_less x NaN = False"

fun double_eq :: "double \<Rightarrow> double \<Rightarrow> bool" where
  "double_eq (Finite s1 m1 e1) (Finite s2 m2 e2) =
     (signed_value s1 m1 * 2 ^ nat (e1 - min e1 e2) = signed_value s2 m2 * 2 ^ nat (e2 - min e1 e2))"
| "double_eq (Infinity s1) (Infinity s2) = (s1 = s2)"
| "double_eq (Infinity s1) (Finite s2 m2 e2) = False"
| "double_eq (Finite s1 m1 e1) (Infinity s2) = False"
| "double_eq NaN y = False"
| "double_eq x NaN = False"

definition double_le :: "double \<Rightarrow> double \<Rightarrow> bool" where
  "double_le x y = (double_less x y \<or> double_eq x y)"

text \<open>\<^verbatim>\<open>M_PI\<close>, the double nearest to \<open>\<pi>\<close>: \<^verbatim>\<open>0x1.921fb54442d18p+1\<close>.\<close>

definition M_PI :: double where
  "M_PI = Finite False 7074237752028440 (- 51)"

subsection \<open>strtod and std::stod\<close>

text \<open>
  \<^verbatim>\<open>strtod\<close> in the C locale.  After white space and an optional sign it reads
  \<^verbatim>\<open>inf\<close> or \<^verbatim>\<open>nan\<close> (in any case), a hexadecimal number after \<^verbatim>\<open>0x\<close>
  (hexadecimal digits with an optional point, and an optional binary exponent after
  \<^verbatim>\<open>p\<close>), or a decimal number (digits with an optional point, at least one digit, and
  an optional decimal exponent after \<^verbatim>\<open>e\<close>).  An exponent mark that no digit follows is
  not part of the number, and what follows the number is ignored.  The value is
  rounded to the nearest double.
\<close>

definition tolower :: "char \<Rightarrow> char" where
  "tolower c = (if 65 \<le> (of_char c :: nat) \<and> (of_char c :: nat) \<le> 90
                then char_of (of_char c + 32 :: nat) else c)"

definition isxdigit :: "char \<Rightarrow> bool" where
  "isxdigit c = (isdigit c \<or> (97 \<le> (of_char (tolower c) :: nat) \<and> (of_char (tolower c) :: nat) \<le> 102))"

definition digit_value :: "char \<Rightarrow> int" where
  "digit_value c = (if isdigit c then of_char c - 48 else of_char (tolower c) - 87)"

definition digits_value :: "int \<Rightarrow> string \<Rightarrow> int" where
  "digits_value base ds = foldl (\<lambda>a c. base * a + digit_value c) 0 ds"

text \<open>The exponent at the head of \<open>str\<close>, after the mark \<open>mark\<close>; 0 when there is
  none.\<close>

definition exponent_part :: "char \<Rightarrow> string \<Rightarrow> int" where
  "exponent_part mark str =
     (case str of
        [] \<Rightarrow> 0
      | c # s1 \<Rightarrow>
          if tolower c \<noteq> mark then 0
          else
            (let s2 = (if s1 \<noteq> [] \<and> (hd s1 = CHR ''-'' \<or> hd s1 = CHR ''+'') then tl s1 else s1);
                 ds = takeWhile isdigit s2
             in if ds = [] then 0
                else if s1 \<noteq> [] \<and> hd s1 = CHR ''-'' then - digits_value 10 ds
                else digits_value 10 ds))"

text \<open>
  What \<^verbatim>\<open>strtod\<close> reports besides the value: \<open>overflow\<close> when the value rounds to an
  infinity (\<^verbatim>\<open>errno\<close> is then \<^verbatim>\<open>ERANGE\<close>), and \<open>underflow\<close> when the value is not zero
  and smaller in magnitude than the smallest normal double \<open>2\<^sup>-\<^sup>1\<^sup>0\<^sup>2\<^sup>2\<close> (whether
  \<^verbatim>\<open>errno\<close> is then \<^verbatim>\<open>ERANGE\<close> is implementation-defined).
\<close>

datatype report = in_range | overflow | underflow

definition convert :: "bool \<Rightarrow> int \<Rightarrow> int \<Rightarrow> double \<times> report" where
  "convert s n d =
     (let r = round_double s n d
      in (r, if r = Infinity s then overflow
             else if n \<noteq> 0 \<and> floor_log2 n d < - 1022 then underflow
             else in_range))"

definition decimal_number :: "bool \<Rightarrow> string \<Rightarrow> (double \<times> report) option" where
  "decimal_number s str =
     (let ip = takeWhile isdigit str;
          s1 = dropWhile isdigit str;
          point = (s1 \<noteq> [] \<and> hd s1 = CHR ''.'');
          fr = (if point then takeWhile isdigit (tl s1) else []);
          s2 = (if point then dropWhile isdigit (tl s1) else s1);
          k = exponent_part CHR ''e'' s2 - int (length fr);
          v = digits_value 10 (ip @ fr)
      in if ip = [] \<and> fr = [] then None
         else Some (convert s (v * 10 ^ nat k) (10 ^ nat (- k))))"

text \<open>After \<^verbatim>\<open>0x\<close>: without a hexadecimal digit the number read is the \<^verbatim>\<open>0\<close> before
  the \<^verbatim>\<open>x\<close>.\<close>

definition hex_number :: "bool \<Rightarrow> string \<Rightarrow> (double \<times> report) option" where
  "hex_number s str =
     (let ip = takeWhile isxdigit str;
          s1 = dropWhile isxdigit str;
          point = (s1 \<noteq> [] \<and> hd s1 = CHR ''.'');
          fr = (if point then takeWhile isxdigit (tl s1) else []);
          s2 = (if point then dropWhile isxdigit (tl s1) else s1);
          k = exponent_part CHR ''p'' s2 - 4 * int (length fr);
          v = digits_value 16 (ip @ fr)
      in if ip = [] \<and> fr = [] then Some (Finite s 0 (- 1074), in_range)
         else Some (convert s (v * 2 ^ nat k) (2 ^ nat (- k))))"

text \<open>\<open>None\<close>: no conversion could be performed.\<close>

definition strtod :: "string \<Rightarrow> (double \<times> report) option" where
  "strtod str =
     (let s1 = dropWhile isspace str;
          neg = (s1 \<noteq> [] \<and> hd s1 = CHR ''-'');
          s2 = (if s1 \<noteq> [] \<and> (hd s1 = CHR ''-'' \<or> hd s1 = CHR ''+'') then tl s1 else s1)
      in if map tolower (take 3 s2) = ''inf'' then Some (Infinity neg, in_range)
         else if map tolower (take 3 s2) = ''nan'' then Some (NaN, in_range)
         else if map tolower (take 2 s2) = ''0x'' then hex_number neg (drop 2 s2)
         else decimal_number neg s2)"

text \<open>
  \<^verbatim>\<open>std::stod\<close> throws \<^verbatim>\<open>std::invalid_argument\<close> when \<^verbatim>\<open>strtod\<close> performs no
  conversion and \<^verbatim>\<open>std::out_of_range\<close> when it sets \<^verbatim>\<open>ERANGE\<close>.  For a value that
  underflows that is left open.
\<close>

definition std_stod :: "string \<Rightarrow> double outcome" where
  "std_stod str =
     (case strtod str of
        None \<Rightarrow> Throws
      | Some (r, in_range) \<Rightarrow> Returns r
      | Some (r, overflow) \<Rightarrow> Throws
      | Some (r, underflow) \<Rightarrow> Unspecified)"

subsection \<open>What is left open\<close>

text \<open>
  The C standard leaves the accuracy of \<^verbatim>\<open>cos\<close> and \<^verbatim>\<open>sin\<close> to the implementation and
  fixes their values at zero (\<^verbatim>\<open>cos(\<plusminus>0)\<close> is 1 and \<^verbatim>\<open>sin(\<plusminus>0)\<close> is \<open>\<plusminus>0\<close>); the instance
  leaves every other value open.  The order in which an \<^verbatim>\<open>std::unordered_map\<close>
  enumerates its keys depends on the hash function and the bucket counts of the
  library; the instance leaves it open for more than one key.
\<close>

fun double_cos :: "double \<Rightarrow> double option" where
  "double_cos (Finite s m e) = (if m = 0 then Some (Finite False (2 ^ 52) (- 52)) else None)"
| "double_cos x = None"

fun double_sin :: "double \<Rightarrow> double option" where
  "double_sin (Finite s m e) = (if m = 0 then Some (Finite s m e) else None)"
| "double_sin x = None"

definition enumeration_order :: "string list \<Rightarrow> string list option" where
  "enumeration_order keys = (if length keys \<le> 1 then Some keys else None)"

definition example_ops :: "double double_ops" where
  "example_ops =
     \<lparr> d_of_int = double_of_int,
       d_add = double_add, d_sub = double_sub, d_mul = double_mul, d_div = double_div,
       d_eq = double_eq, d_lt = double_less, d_le = double_le,
       d_cos = double_cos, d_sin = double_sin, d_pi = M_PI,
       stod = std_stod, key_order = enumeration_order \<rparr>"

section \<open>Example states\<close>

text \<open>A freshly constructed interpreter: \<^verbatim>\<open>PSInterpreter()\<close> on an empty store.\<close>

definition initial :: "double PSInterpreter" where
  "initial = PSInterpreter_new example_ops []"

text \<open>Example states, each reached from \<open>initial\<close> by the program named with it.
  Among the doubles, \<open>double_of_int 1\<close> is \<^verbatim>\<open>1.0\<close> and \<open>round_double False 5 2\<close> is
  \<^verbatim>\<open>2.5\<close>, the double nearest to \<open>5 / 2\<close>.\<close>

definition astore_example :: "double PSInterpreter" where
  "astore_example =
     \<lparr> heap = [DictionaryObj [], IntegerObj 1, IntegerObj 2, IntegerObj 2, NullObj, NullObj,
               ArrayObj [4, 5]],
       stack = [6, 2, 1], dictionaryStack = [0],
       graphicsStack = [GraphicsState_init example_ops] \<rparr>"

definition astore_short_example :: "double PSInterpreter" where
  "astore_short_example =
     \<lparr> heap = [DictionaryObj [], IntegerObj 1, IntegerObj 2, NullObj, NullObj,
               ArrayObj [3, 4]],
       stack = [5, 1], dictionaryStack = [0],
       graphicsStack = [GraphicsState_init example_ops] \<rparr>"

definition aload_example :: "double PSInterpreter" where
  "aload_example =
     \<lparr> heap = [DictionaryObj [], IntegerObj 7,
               DictionaryObj [], IntegerObj 10, DictionaryObj [], IntegerObj 20,
               DictionaryObj [], IntegerObj 30, ArrayObj [3, 5, 7]],
       stack = [8, 1], dictionaryStack = [0],
       graphicsStack = [GraphicsState_init example_ops] \<rparr>"

definition eq_example :: "double PSInterpreter" where
  "eq_example =
     \<lparr> heap = [DictionaryObj [], IntegerObj 1, RealObj (double_of_int 1)],
       stack = [2, 1], dictionaryStack = [0],
       graphicsStack = [GraphicsState_init example_ops] \<rparr>"

text \<open>Observers of a run: the object behind a handle, and the object on top of the
  operand stack (\<^verbatim>\<open>getStack().peek()\<close>), after it.\<close>

definition result_deref :: "'d result \<Rightarrow> PSObjectPtr \<Rightarrow> error + 'd PSObject" where
  "result_deref r p = and_then r (\<lambda>st. Inr (deref (heap st) p))"

definition peek_value :: "'d result \<Rightarrow> error + 'd PSObject" where
  "peek_value r = and_then r (\<lambda>st. and_then (stack_peek st) (\<lambda>p. Inr (deref (heap st) p)))"

text \<open>Two operands \<open>oa\<close> and \<open>ob\<close> on the stack of a fresh interpreter, \<open>ob\<close> on top.\<close>

definition pair_example :: "double PSObject \<Rightarrow> double PSObject \<Rightarrow> double PSInterpreter" where
  "pair_example oa ob =
     \<lparr> heap = [DictionaryObj [], oa, ob], stack = [2, 1], dictionaryStack = [0],
       graphicsStack = [GraphicsState_init example_ops] \<rparr>"

text \<open>A condition and the procedure \<^verbatim>\<open>{1}\<close> on the stack of a fresh interpreter.\<close>

definition if_example :: "double PSObject \<Rightarrow> double PSInterpreter" where
  "if_example cond = pair_example cond (ProcedureObj [''1''])"

definition stack_values :: "'d result \<Rightarrow> error + 'd PSObject list" where
  "stack_values r = and_then r (\<lambda>st. Inr (map (deref (heap st)) (stack st)))"

definition dup_example :: "double PSInterpreter" where
  "dup_example =
     \<lparr> heap = [DictionaryObj [], IntegerObj 0, IntegerObj 2, NullObj, NullObj, ArrayObj [3, 4]],
       stack = [5, 1], dictionaryStack = [0],
       graphicsStack = [GraphicsState_init example_ops] \<rparr>"

definition shadow_example :: "double PSInterpreter" where
  "shadow_example =
     \<lparr> heap = [DictionaryObj [(''add'', 2)], StringObj ''/add'', ProcedureObj [''sub''],
               IntegerObj 5, IntegerObj 3],
       stack = [4, 3], dictionaryStack = [0],
       graphicsStack = [GraphicsState_init example_ops] \<rparr>"

definition path_example :: "double PSInterpreter" where
  "path_example =
     \<lparr> heap = [DictionaryObj [], IntegerObj 10, IntegerObj 20, IntegerObj 30, IntegerObj 40],
       stack = [], dictionaryStack = [0],
       graphicsStack =
         [(GraphicsState_init example_ops)
            \<lparr>currentPoint := Point (double_of_int 30) (double_of_int 40),
             currentPath :=
               [PathSegment MoveTo [Point (double_of_int 10) (double_of_int 20)],
                PathSegment LineTo [Point (double_of_int 30) (double_of_int 40)]]\<rparr>,
          GraphicsState_init example_ops] \<rparr>"

section \<open>Examples of the doubles\<close>

text \<open>\<^verbatim>\<open>0.1 + 0.2\<close> is not the double nearest to \<open>3 / 10\<close>; a division by zero gives an
  infinity, and infinity times zero a NaN, which is not equal to itself; the two zeros
  are equal.\<close>

lemma double_examples:
  "double_add (round_double False 1 10) (round_double False 2 10)
     = Finite False 5404319552844596 (- 54)"
  "round_double False 3 10 = Finite False 5404319552844595 (- 54)"
  "double_div (double_of_int 1) (double_of_int 0) = Infinity False"
  "double_mul (Infinity False) (double_of_int 0) = NaN"
  "\<not> double_eq NaN NaN"
  "double_eq (Finite True 0 (- 1074)) (Finite False 0 (- 1074))"
  "double_less (double_of_int (- 1)) (round_double False 1 2)"
  by code_simp+

text \<open>\<^verbatim>\<open>std::stod\<close> reads an exponent, a hexadecimal number and \<^verbatim>\<open>inf\<close>; it throws when
  there is no number, and when the value is too large for a double.  A token without a
  point goes to \<^verbatim>\<open>std::stoi\<close>, which reads the digits at its head.\<close>

lemma std_stod_examples:
  "std_stod ''1.5e3'' = Returns (double_of_int 1500)"
  "std_stod ''0x1.8p1'' = Returns (double_of_int 3)"
  "std_stod ''-.5'' = Returns (round_double True 1 2)"
  "std_stod ''0.1'' = Returns (Finite False 7205759403792794 (- 56))"
  "std_stod ''inf.'' = Returns (Infinity False)"
  "std_stod ''1.8e308'' = Throws"
  "std_stod ''x.5'' = Throws"
  "std_stod ''1.0e-310'' = Unspecified"
  "parse_number example_ops ''1e5'' = Returns (IntegerObj 1)"
  by code_simp+

text \<open>\<^verbatim>\<open>0 rotate\<close> leaves the matrix as it is; \<^verbatim>\<open>90 rotate\<close> needs a cosine that the
  instance leaves open.\<close>

lemma rotate_examples:
  "execute example_ops 1 ''0 rotate'' initial
     = Inr (initial\<lparr>heap := heap initial @ [IntegerObj 0]\<rparr>)"
  "execute example_ops 1 ''90 rotate'' initial = Inl implementation_defined"
  by code_simp+

section \<open>Examples of the for loop\<close>

text \<open>\<^verbatim>\<open>1 3 1 {} for\<close> leaves 1, 2 and 3 on the stack, and \<^verbatim>\<open>3 1 -1 {} for\<close> leaves 3, 2
  and 1 (the top of the stack first).\<close>

lemma for_examples:
  "stack_values (execute example_ops 2 ''1 3 1 {} for'' initial)
     = Inr [IntegerObj 3, IntegerObj 2, IntegerObj 1]"
  "stack_values (execute example_ops 2 ''3 1 -1 {} for'' initial)
     = Inr [IntegerObj 1, IntegerObj 2, IntegerObj 3]"
  by code_simp+

text \<open>With \<^verbatim>\<open>end = INT_MAX\<close> the test \<^verbatim>\<open>i <= end\<close> holds for every \<^verbatim>\<open>int\<close>: the loop
  never returns, whatever the bound on its passes.\<close>

lemma for_up_to_INT_MAX:
  "for_up k exec proc i e increment st = Inr st' \<Longrightarrow> sint e \<noteq> 2 ^ 31 - 1"
proof (induction k exec proc i e increment st rule: for_up.induct)
  case (1 k exec proc i e increment st)
  show ?case
  proof
    assume e: "sint e = 2 ^ 31 - 1"
    have le: "sint i \<le> sint e"
      using sint_lt [of i] e by simp
    have k: "0 < k"
      using "1.prems" le by (subst (asm) for_up.simps) (simp split: if_splits)
    obtain st1 where body: "replay exec proc (push_new (IntegerObj i) st) = Inr st1"
      and rest: "for_up (k - 1) exec proc (i + increment) e increment st1 = Inr st'"
      using "1.prems" le k
      by (subst (asm) for_up.simps) (auto split: sum.splits)
    have "sint e \<noteq> 2 ^ 31 - 1"
      using le k body rest by (intro "1.IH") simp_all
    then show False using e by simp
  qed
qed

section \<open>Facts about the store and the stack\<close>

lemma peek_push_new: "peek_value (Inr (push_new obj st)) = Inr obj"
  by (simp add: peek_value_def push_new_def make_shared_def stack_push_def stack_peek_def
      deref_def)

lemma eq_example_reached: "execute example_ops 1 ''1 1.0'' initial = Inr eq_example"
  by code_simp

lemma deref_ArrayObj_lt: "deref h p = ArrayObj xs \<Longrightarrow> p < length h"
  by (auto simp: deref_def split: if_splits)

lemma deref_update_same: "p < length h \<Longrightarrow> deref (h[p := obj]) p = obj"
  by (simp add: deref_def)

lemma deref_update_id: "deref h p = ArrayObj xs \<Longrightarrow> h[p := ArrayObj xs] = h"
  by (metis deref_ArrayObj_lt deref_def list_update_id)

lemma astore_example_reached:
  "execute example_ops 1 ''1 2 2 array'' initial = Inr astore_example"
  by code_simp

lemma astore_short_example_reached:
  "execute example_ops 1 ''1 2 array'' initial = Inr astore_short_example"
  by code_simp

section \<open>astore and aload\<close>

text \<open>The loop of \<^verbatim>\<open>astore\<close>, started at \<open>i\<close> with the values \<open>vs\<close> on top of the stack
  (top first): slot \<open>i - 1\<close> receives the top, slot \<open>i - 2\<close> the next, and so on, so
  that the slots below \<open>i\<close> end up holding \<open>vs\<close> in reverse, the deepest value first.\<close>

lemma astore_loop_stores:
  "deref (heap st) a = ArrayObj ys \<Longrightarrow> stack st = vs @ rest \<Longrightarrow> length vs = i
    \<Longrightarrow> i \<le> length ys
    \<Longrightarrow> astore_loop i a st
        = Inr (st\<lparr>stack := rest, heap := (heap st)[a := ArrayObj (rev vs @ drop i ys)]\<rparr>)"
proof (induction i arbitrary: st vs ys)
  case 0
  then show ?case by (simp add: deref_update_id)
next
  case (Suc j)
  from Suc.prems obtain v vs' where vs: "vs = v # vs'" and len: "length vs' = j"
    by (cases vs) auto
  have lt: "a < length (heap st)" using Suc.prems(1) by (rule deref_ArrayObj_lt)
  let ?st1 = "st\<lparr>stack := vs' @ rest\<rparr>"
  let ?st2 = "?st1\<lparr>heap := (heap ?st1)[a := ArrayObj (ys[j := v])]\<rparr>"
  have pop: "stack_pop st = Inr (v, ?st1)"
    using Suc.prems(2) vs by (simp add: stack_pop_def)
  have set: "arraySet a j v ?st1 = Inr ?st2"
    using Suc.prems(1,4) by (simp add: arraySet_def)
  have d2: "deref (heap ?st2) a = ArrayObj (ys[j := v])"
    using lt by (simp add: deref_update_same)
  have IH: "astore_loop j a ?st2
      = Inr (?st2\<lparr>stack := rest,
                   heap := (heap ?st2)[a := ArrayObj (rev vs' @ drop j (ys[j := v]))]\<rparr>)"
    using Suc.prems(4) len by (intro Suc.IH [OF d2]) simp_all
  have dr: "drop j (ys[j := v]) = v # drop (Suc j) ys"
    using Suc.prems(4) by (simp add: upd_conv_take_nth_drop)
  show ?case
    using pop set IH dr vs by simp
qed

lemma op_astore_enough:
  assumes "stack st = a # vs @ rest" "deref (heap st) a = ArrayObj xs" "length vs = length xs"
  shows "op_astore st
    = Inr (st\<lparr>stack := a # rest, heap := (heap st)[a := ArrayObj (rev vs)]\<rparr>)"
proof -
  let ?st' = "st\<lparr>stack := vs @ rest\<rparr>"
  have "astore_loop (length xs) a ?st'
      = Inr (?st'\<lparr>stack := rest,
                   heap := (heap ?st')[a := ArrayObj (rev vs @ drop (length xs) xs)]\<rparr>)"
    using assms by (intro astore_loop_stores) simp_all
  then show ?thesis
    using assms by (simp add: op_astore_def Let_def stack_push_def)
qed

lemma op_astore_underflow:
  assumes "stack st = a # below" "deref (heap st) a = ArrayObj xs" "length below < length xs"
  shows "op_astore st
    = Inl (runtime_error ''Stack underflow: not enough elements for astore'')"
  using assms by (simp add: op_astore_def Let_def)

lemma fold_stack_push: "fold stack_push xs st = st\<lparr>stack := rev xs @ stack st\<rparr>"
  by (induction xs arbitrary: st) (simp_all add: stack_push_def)

lemma op_aload_ok:
  assumes "stack st = a # rest" "deref (heap st) a = ArrayObj xs"
  shows "op_aload st = Inr (st\<lparr>stack := a # rev xs @ rest\<rparr>)"
  using assms by (simp add: op_aload_def Let_def fold_stack_push stack_push_def)

text \<open>
  Claim C4, as amended.  Let an Array of length \<open>n\<close> be on top of the operand stack and
  \<open>below\<close> be the stack under it, top first.  With fewer than \<open>n\<close> values below,
  \<^verbatim>\<open>astore\<close> raises the stack-underflow error.  Otherwise it pops the array and the
  top \<open>n\<close> values, stores them in stack order, so that the deepest popped value is at
  index 0 and the topmost at index \<open>n - 1\<close> (the array holds \<open>rev (take n below)\<close>),
  and pushes the array back.  The claim as stated puts the deepest popped value at
  index \<open>n - 1\<close>.
\<close>

theorem astore_stores_in_stack_order:
  assumes "stack st = a # below" and "deref (heap st) a = ArrayObj xs"
  shows "(length below < length xs \<longrightarrow>
            op_astore st
              = Inl (runtime_error ''Stack underflow: not enough elements for astore''))
       \<and> (length xs \<le> length below \<longrightarrow>
            op_astore st
              = Inr (st\<lparr>stack := a # drop (length xs) below,
                        heap := (heap st)[a := ArrayObj (rev (take (length xs) below))]\<rparr>))"
proof (intro conjI impI)
  assume "length below < length xs"
  with assms show "op_astore st
      = Inl (runtime_error ''Stack underflow: not enough elements for astore'')"
    by (rule op_astore_underflow)
next
  assume le: "length xs \<le> length below"
  have split: "stack st = a # take (length xs) below @ drop (length xs) below"
    using assms(1) by simp
  have len: "length (take (length xs) below) = length xs"
    using le by simp
  show "op_astore st
      = Inr (st\<lparr>stack := a # drop (length xs) below,
                heap := (heap st)[a := ArrayObj (rev (take (length xs) below))]\<rparr>)"
    by (rule op_astore_enough [OF split assms(2) len])
qed

theorem astore_stores_in_stack_order_witness:
  "op_astore astore_example
     = Inr (astore_example\<lparr>stack := [6],
              heap := (heap astore_example)[6 := ArrayObj [1, 2]]\<rparr>)
   \<and> op_astore astore_short_example
     = Inl (runtime_error ''Stack underflow: not enough elements for astore'')"
proof -
  have s1: "stack astore_example = 6 # [2, 1]"
    and d1: "deref (heap astore_example) 6 = ArrayObj [4, 5]"
    by (simp_all add: astore_example_def deref_def)
  have s2: "stack astore_short_example = 5 # [1]"
    and d2: "deref (heap astore_short_example) 5 = ArrayObj [3, 4]"
    by (simp_all add: astore_short_example_def deref_def)
  show ?thesis
    using astore_stores_in_stack_order [OF s1 d1] astore_stores_in_stack_order [OF s2 d2]
    by simp
qed

text \<open>Against C4 as stated: after \<^verbatim>\<open>1 2 2 array astore\<close> the array holds the handles
  of 1 and 2 in this order.  The deepest popped value, 1, is at index 0 and not at index
  \<open>n - 1 = 1\<close>.\<close>

theorem astore_deepest_counterexample:
  "result_deref (op_astore astore_example) 6 = Inr (ArrayObj [1, 2])
   \<and> deref (heap astore_example) 1 = IntegerObj 1
   \<and> deref (heap astore_example) 2 = IntegerObj 2
   \<and> result_deref (op_astore astore_example) 6 \<noteq> Inr (ArrayObj [2, 1])"
  by (simp add: result_deref_def op_astore_def astore_example_def deref_def Let_def
      stack_pop_def arraySet_def stack_push_def)

text \<open>
  Claim C5.  With an Array \<open>A\<close> on top of the operand stack, \<^verbatim>\<open>aload\<close> followed by
  \<^verbatim>\<open>astore\<close> succeeds and gives back the state it started from: the same operand stack
  with \<open>A\<close> on top and nothing added, and the same store, so \<open>A\<close> holds the same sequence
  of element handles.
\<close>

theorem aload_astore_roundtrip:
  assumes "stack st = a # rest" and "deref (heap st) a = ArrayObj xs"
  shows "and_then (op_aload st) op_astore = Inr st"
proof -
  let ?st1 = "st\<lparr>stack := a # rev xs @ rest\<rparr>"
  have "op_astore ?st1
      = Inr (?st1\<lparr>stack := a # rest, heap := (heap ?st1)[a := ArrayObj (rev (rev xs))]\<rparr>)"
    using assms by (intro op_astore_enough) simp_all
  then show ?thesis
    using assms by (simp add: op_aload_ok deref_update_id)
qed

lemma aload_example_reached:
  "execute example_ops 2 ''7 [10 20 30]'' initial = Inr aload_example"
  by code_simp

theorem aload_astore_roundtrip_witness:
  "and_then (op_aload aload_example) op_astore = Inr aload_example"
proof -
  have s: "stack aload_example = 8 # [1]"
    and d: "deref (heap aload_example) 8 = ArrayObj [3, 5, 7]"
    by (simp_all add: aload_example_def deref_def)
  show ?thesis
    using aload_astore_roundtrip [OF s d] .
qed

section \<open>eq and ne\<close>

lemma op_eq_ok:
  assumes "stack st = b # a # rest"
  shows "op_eq fp st
    = Inr (push_new (BooleanObj (eq_result fp (deref (heap st) a) (deref (heap st) b)))
             (st\<lparr>stack := rest\<rparr>))"
  using assms by (simp add: op_eq_def Let_def)

lemma op_ne_after_eq:
  "op_eq fp st = Inr (push_new (BooleanObj r) st')
    \<Longrightarrow> op_ne fp st
        = Inr (push_new (BooleanObj (\<not> r)) (st'\<lparr>heap := heap st' @ [BooleanObj r]\<rparr>))"
  by (simp add: op_ne_def push_new_def make_shared_def stack_push_def stack_pop_def deref_def)

text \<open>
  Claim C7.  With two operands on the stack, \<^verbatim>\<open>eq\<close> pops both and pushes a Boolean,
  which is false whenever the type tags of the operands differ (Integer against Real
  included), and \<^verbatim>\<open>ne\<close> on the same state leaves on top the negation of what \<^verbatim>\<open>eq\<close>
  leaves on top.
\<close>

theorem eq_mismatch_false_ne_negates:
  assumes "stack st = b # a # rest"
  shows "(getType (deref (heap st) a) \<noteq> getType (deref (heap st) b) \<longrightarrow>
            op_eq fp st = Inr (push_new (BooleanObj False) (st\<lparr>stack := rest\<rparr>)))
       \<and> peek_value (op_eq fp st)
            = Inr (BooleanObj (eq_result fp (deref (heap st) a) (deref (heap st) b)))
       \<and> peek_value (op_ne fp st)
            = Inr (BooleanObj (\<not> eq_result fp (deref (heap st) a) (deref (heap st) b)))"
proof -
  let ?r = "eq_result fp (deref (heap st) a) (deref (heap st) b)"
  have eq: "op_eq fp st = Inr (push_new (BooleanObj ?r) (st\<lparr>stack := rest\<rparr>))"
    using assms by (rule op_eq_ok)
  have mis: "getType (deref (heap st) a) \<noteq> getType (deref (heap st) b) \<longrightarrow> \<not> ?r"
    by (simp add: eq_result_def)
  have "peek_value (op_ne fp st) = Inr (BooleanObj (\<not> ?r))"
    by (simp add: op_ne_after_eq [OF eq] peek_push_new)
  moreover have "peek_value (op_eq fp st) = Inr (BooleanObj ?r)"
    by (simp add: eq peek_push_new)
  ultimately show ?thesis
    using eq mis by auto
qed

theorem eq_mismatch_false_ne_negates_witness:
  "op_eq example_ops eq_example
     = Inr (push_new (BooleanObj False) (eq_example\<lparr>stack := []\<rparr>))
   \<and> peek_value (op_eq example_ops eq_example) = Inr (BooleanObj False)
   \<and> peek_value (op_ne example_ops eq_example) = Inr (BooleanObj True)"
proof -
  have s: "stack eq_example = 2 # 1 # []"
    by (simp add: eq_example_def)
  have t: "getType (deref (heap eq_example) 1) \<noteq> getType (deref (heap eq_example) 2)"
    by (simp add: eq_example_def deref_def)
  have r: "\<not> eq_result example_ops (deref (heap eq_example) 1) (deref (heap eq_example) 2)"
    using t by (simp add: eq_result_def)
  show ?thesis
    using eq_mismatch_false_ne_negates [OF s, of example_ops] t r
    by (simp add: peek_push_new)
qed

section \<open>Arithmetic\<close>

text \<open>The quotient \<open>sgn a * sgn b * (\<bar>a\<bar> div \<bar>b\<bar>)\<close> is the one of C++: it leaves a
  remainder smaller in magnitude than the divisor and of the sign of the dividend (the
  quotient is rounded towards zero), and it is an \<^verbatim>\<open>int\<close> unless \<^verbatim>\<open>INT_MIN\<close> is divided
  by \<open>-1\<close>.\<close>

lemma sgn_times_abs: "sgn a * \<bar>a\<bar> = a" for a :: int
  by (simp add: abs_if sgn_if)

lemma sgn_times_self: "sgn a * a = \<bar>a\<bar>" for a :: int
  by (simp add: abs_if sgn_if)

lemma truncated_remainder:
  fixes a b :: int
  shows "a - sgn a * sgn b * (\<bar>a\<bar> div \<bar>b\<bar>) * b = sgn a * (\<bar>a\<bar> mod \<bar>b\<bar>)"
proof -
  have "sgn a * (\<bar>a\<bar> mod \<bar>b\<bar>) = sgn a * (\<bar>a\<bar> - \<bar>a\<bar> div \<bar>b\<bar> * \<bar>b\<bar>)"
    by (simp add: minus_div_mult_eq_mod)
  also have "\<dots> = sgn a * \<bar>a\<bar> - sgn a * (\<bar>a\<bar> div \<bar>b\<bar>) * \<bar>b\<bar>"
    by (simp add: algebra_simps)
  also have "\<dots> = a - sgn a * (\<bar>a\<bar> div \<bar>b\<bar>) * (sgn b * b)"
    by (simp only: sgn_times_abs sgn_times_self)
  also have "\<dots> = a - sgn a * sgn b * (\<bar>a\<bar> div \<bar>b\<bar>) * b"
    by (simp add: algebra_simps)
  finally show ?thesis by simp
qed

lemma truncated_towards_zero:
  fixes a b q :: int
  assumes "b \<noteq> 0" and "q = sgn a * sgn b * (\<bar>a\<bar> div \<bar>b\<bar>)"
  shows "\<bar>a - q * b\<bar> < \<bar>b\<bar>" and "0 \<le> (a - q * b) * a"
proof -
  have r: "a - q * b = sgn a * (\<bar>a\<bar> mod \<bar>b\<bar>)"
    unfolding assms(2) by (rule truncated_remainder)
  have m0: "0 \<le> \<bar>a\<bar> mod \<bar>b\<bar>" and m1: "\<bar>a\<bar> mod \<bar>b\<bar> < \<bar>b\<bar>"
    using assms(1) by simp_all
  have "\<bar>a - q * b\<bar> = \<bar>sgn a\<bar> * (\<bar>a\<bar> mod \<bar>b\<bar>)"
    using m0 by (simp add: r abs_mult)
  also have "\<dots> \<le> \<bar>a\<bar> mod \<bar>b\<bar>"
    using m0 by (cases "a = 0") (simp_all add: abs_sgn_eq)
  finally show "\<bar>a - q * b\<bar> < \<bar>b\<bar>"
    using m1 by simp
  have "(a - q * b) * a = (\<bar>a\<bar> mod \<bar>b\<bar>) * (sgn a * a)"
    unfolding r by (simp only: mult_ac)
  also have "\<dots> = (\<bar>a\<bar> mod \<bar>b\<bar>) * \<bar>a\<bar>"
    by (simp only: sgn_times_self)
  finally show "0 \<le> (a - q * b) * a"
    using m0 by simp
qed

lemma truncated_in_range:
  fixes a b :: int
  assumes a: "- (2 ^ 31) \<le> a" "a < 2 ^ 31" and b: "b \<noteq> 0"
    and ne: "\<not> (a = - (2 ^ 31) \<and> b = - 1)"
  shows "- (2 ^ 31) \<le> sgn a * sgn b * (\<bar>a\<bar> div \<bar>b\<bar>)
       \<and> sgn a * sgn b * (\<bar>a\<bar> div \<bar>b\<bar>) < 2 ^ 31"
proof (cases "\<bar>b\<bar> = 1")
  case True
  then consider "b = 1" | "b = - 1" by linarith
  then show ?thesis
  proof cases
    case 1
    then show ?thesis using a by (simp add: sgn_times_abs)
  next
    case 2
    then have "sgn a * sgn b * (\<bar>a\<bar> div \<bar>b\<bar>) = - (sgn a * \<bar>a\<bar>)"
      by simp
    then have "sgn a * sgn b * (\<bar>a\<bar> div \<bar>b\<bar>) = - a"
      by (simp only: sgn_times_abs)
    then show ?thesis using a ne 2 by simp
  qed
next
  case False
  then have b2: "2 \<le> \<bar>b\<bar>" using b by linarith
  have "\<bar>a\<bar> div \<bar>b\<bar> \<le> \<bar>a\<bar> div 2"
    using b2 by (intro zdiv_mono2) simp_all
  also have "\<dots> \<le> 2 ^ 30"
    using a by simp
  finally have le: "\<bar>a\<bar> div \<bar>b\<bar> \<le> 2 ^ 30" .
  have ge: "0 \<le> \<bar>a\<bar> div \<bar>b\<bar>"
    by (simp add: div_int_pos_iff)
  have "\<bar>sgn a * sgn b * (\<bar>a\<bar> div \<bar>b\<bar>)\<bar> = \<bar>sgn a\<bar> * \<bar>sgn b\<bar> * (\<bar>a\<bar> div \<bar>b\<bar>)"
    using ge by (simp add: abs_mult)
  also have "\<dots> \<le> \<bar>a\<bar> div \<bar>b\<bar>"
    using ge by (cases "a = 0"; cases "b = 0") (simp_all add: abs_sgn_eq)
  finally have "\<bar>sgn a * sgn b * (\<bar>a\<bar> div \<bar>b\<bar>)\<bar> \<le> 2 ^ 30"
    using le by simp
  then show ?thesis by (simp add: abs_le_iff)
qed

lemma int_div_truncates:
  assumes "y \<noteq> 0" and "\<not> (sint x = - (2 ^ 31) \<and> sint y = - 1)"
  shows "\<exists>q. int_div x y = Inr q
           \<and> sint q = sgn (sint x) * sgn (sint y) * (\<bar>sint x\<bar> div \<bar>sint y\<bar>)"
proof -
  define t where "t = sgn (sint x) * sgn (sint y) * (\<bar>sint x\<bar> div \<bar>sint y\<bar>)"
  have y0: "sint y \<noteq> 0" using assms(1) by (simp add: signed_eq_0_iff)
  have x: "- (2 ^ 31) \<le> sint x" "sint x < 2 ^ 31"
    using sint_ge [of x] sint_lt [of x] by simp_all
  have "- (2 ^ 31) \<le> t \<and> t < 2 ^ 31"
    unfolding t_def using x y0 assms(2) by (rule truncated_in_range)
  then have "signed_take_bit 31 t = t"
    by (simp add: signed_take_bit_int_eq_self)
  then have "sint (word_of_int t :: 32 word) = t"
    by (simp add: sint_sbintrunc')
  then show ?thesis
    using assms by (simp add: int_div_def trunc_div_def t_def)
qed

lemma arith_int_int:
  assumes "stack st = b # a # rest" "deref (heap st) a = IntegerObj x" "deref (heap st) b = IntegerObj y"
  shows "arith name iop dop fp st = Inr (push_new (IntegerObj (iop x y)) (st\<lparr>stack := rest\<rparr>))"
  using assms by (simp add: arith_def Let_def)

lemma arith_real:
  assumes "stack st = b # a # rest" "asNumber fp (deref (heap st) a) = Inr u" "asNumber fp (deref (heap st) b) = Inr v"
    "getType (deref (heap st) a) = REAL \<or> getType (deref (heap st) b) = REAL"
  shows "arith name iop dop fp st = Inr (push_new (RealObj (dop u v)) (st\<lparr>stack := rest\<rparr>))"
  using assms by (auto simp add: arith_def Let_def)

lemma div_int_int:
  assumes "stack st = b # a # rest" "deref (heap st) a = IntegerObj x" "deref (heap st) b = IntegerObj y" "y \<noteq> 0"
  shows "op_div fp st
    = and_then (int_div x y) (\<lambda>q. Inr (push_new (IntegerObj q) (st\<lparr>stack := rest\<rparr>)))"
  using assms by (simp add: op_div_def Let_def)

lemma div_by_real:
  assumes "stack st = b # a # rest" "asNumber fp (deref (heap st) a) = Inr u"
    "deref (heap st) b = RealObj v" "\<not> d_eq fp v (d_of_int fp 0)"
  shows "op_div fp st = Inr (push_new (RealObj (d_div fp u v)) (st\<lparr>stack := rest\<rparr>))"
  using assms by (simp add: op_div_def Let_def)

lemma div_real_by_int:
  assumes "stack st = b # a # rest" "deref (heap st) a = RealObj u"
    "deref (heap st) b = IntegerObj y" "y \<noteq> 0"
  shows "op_div fp st
    = Inr (push_new (RealObj (d_div fp u (d_of_int fp (sint y)))) (st\<lparr>stack := rest\<rparr>))"
  using assms by (simp add: op_div_def Let_def)

text \<open>
  Claim C6, as amended.  With two numeric operands on the stack (\<open>b\<close> on top), \<^verbatim>\<open>add\<close>, \<^verbatim>\<open>sub\<close>,
  \<^verbatim>\<open>mul\<close> and \<^verbatim>\<open>div\<close> pop both and push: an Integer when both are Integers, and
  otherwise a Real computed in doubles after converting the Integer operand.

  For two Integers \<^verbatim>\<open>add\<close>, \<^verbatim>\<open>sub\<close> and \<^verbatim>\<open>mul\<close> push the 32-bit sum, difference and
  product.  \<^verbatim>\<open>div\<close> pushes the Integer \<open>q\<close> whose value is the quotient rounded towards
  zero, \<open>sgn x * sgn y * (\<bar>x\<bar> div \<bar>y\<bar>)\<close>: the remainder \<open>x - q * y\<close> is smaller in
  magnitude than \<open>y\<close> and has the sign of \<open>x\<close>.  The one pair of Integers without such a
  \<open>q\<close> is \<^verbatim>\<open>INT_MIN\<close> and \<open>-1\<close>; for it \<^verbatim>\<open>div\<close> pushes nothing, the division has no
  defined result (the claim as stated has an Integer as the result of every two
  Integers).  In the three other cases \<^verbatim>\<open>div\<close> divides in doubles.  (\<^verbatim>\<open>div\<close> throws on
  a zero divisor before it looks at the types, hence its side conditions.)
\<close>

theorem arithmetic_promotion:
  assumes "stack st = b # a # rest" and "st' = st\<lparr>stack := rest\<rparr>"
  shows "(deref (heap st) a = IntegerObj x \<and> deref (heap st) b = IntegerObj y \<longrightarrow>
            op_add fp st = Inr (push_new (IntegerObj (x + y)) st')
          \<and> op_sub fp st = Inr (push_new (IntegerObj (x - y)) st')
          \<and> op_mul fp st = Inr (push_new (IntegerObj (x * y)) st')
          \<and> (y \<noteq> 0 \<and> \<not> (sint x = - (2 ^ 31) \<and> sint y = - 1) \<longrightarrow>
               (\<exists>q. op_div fp st = Inr (push_new (IntegerObj q) st')
                  \<and> sint q = sgn (sint x) * sgn (sint y) * (\<bar>sint x\<bar> div \<bar>sint y\<bar>)
                  \<and> \<bar>sint x - sint q * sint y\<bar> < \<bar>sint y\<bar>
                  \<and> 0 \<le> (sint x - sint q * sint y) * sint x))
          \<and> (sint x = - (2 ^ 31) \<and> sint y = - 1 \<longrightarrow> op_div fp st = Inl undefined_behaviour))
       \<and> (deref (heap st) a = IntegerObj x \<and> deref (heap st) b = RealObj v \<longrightarrow>
            op_add fp st = Inr (push_new (RealObj (d_add fp (d_of_int fp (sint x)) v)) st')
          \<and> op_sub fp st = Inr (push_new (RealObj (d_sub fp (d_of_int fp (sint x)) v)) st')
          \<and> op_mul fp st = Inr (push_new (RealObj (d_mul fp (d_of_int fp (sint x)) v)) st')
          \<and> (\<not> d_eq fp v (d_of_int fp 0) \<longrightarrow>
               op_div fp st
                 = Inr (push_new (RealObj (d_div fp (d_of_int fp (sint x)) v)) st')))
       \<and> (deref (heap st) a = RealObj u \<and> deref (heap st) b = IntegerObj y \<longrightarrow>
            op_add fp st = Inr (push_new (RealObj (d_add fp u (d_of_int fp (sint y)))) st')
          \<and> op_sub fp st = Inr (push_new (RealObj (d_sub fp u (d_of_int fp (sint y)))) st')
          \<and> op_mul fp st = Inr (push_new (RealObj (d_mul fp u (d_of_int fp (sint y)))) st')
          \<and> (y \<noteq> 0 \<longrightarrow>
               op_div fp st
                 = Inr (push_new (RealObj (d_div fp u (d_of_int fp (sint y)))) st')))
       \<and> (deref (heap st) a = RealObj u \<and> deref (heap st) b = RealObj v \<longrightarrow>
            op_add fp st = Inr (push_new (RealObj (d_add fp u v)) st')
          \<and> op_sub fp st = Inr (push_new (RealObj (d_sub fp u v)) st')
          \<and> op_mul fp st = Inr (push_new (RealObj (d_mul fp u v)) st')
          \<and> (\<not> d_eq fp v (d_of_int fp 0) \<longrightarrow>
               op_div fp st = Inr (push_new (RealObj (d_div fp u v)) st')))"
proof (intro conjI impI; elim conjE)
  assume ints: "deref (heap st) a = IntegerObj x" "deref (heap st) b = IntegerObj y"
  then show "op_add fp st = Inr (push_new (IntegerObj (x + y)) st')"
    "op_sub fp st = Inr (push_new (IntegerObj (x - y)) st')"
    "op_mul fp st = Inr (push_new (IntegerObj (x * y)) st')"
    using assms by (simp_all add: op_add_def op_sub_def op_mul_def arith_int_int)
  {
    assume y: "y \<noteq> 0" and ne: "\<not> (sint x = - (2 ^ 31) \<and> sint y = - 1)"
    obtain q where q: "int_div x y = Inr q"
      and v: "sint q = sgn (sint x) * sgn (sint y) * (\<bar>sint x\<bar> div \<bar>sint y\<bar>)"
      using int_div_truncates [OF y ne] by blast
    have y0: "sint y \<noteq> 0" using y by (simp add: signed_eq_0_iff)
    have "op_div fp st = Inr (push_new (IntegerObj q) st')"
      using assms ints y q by (simp add: div_int_int)
    then show "\<exists>q. op_div fp st = Inr (push_new (IntegerObj q) st')
        \<and> sint q = sgn (sint x) * sgn (sint y) * (\<bar>sint x\<bar> div \<bar>sint y\<bar>)
        \<and> \<bar>sint x - sint q * sint y\<bar> < \<bar>sint y\<bar>
        \<and> 0 \<le> (sint x - sint q * sint y) * sint x"
      using v truncated_towards_zero [OF y0 v] by blast
  }
  {
    assume m: "sint x = - (2 ^ 31)" "sint y = - 1"
    then have "y \<noteq> 0" by auto
    then show "op_div fp st = Inl undefined_behaviour"
      using assms ints m by (simp add: div_int_int int_div_def)
  }
qed (use assms in \<open>simp_all add: op_add_def op_sub_def op_mul_def arith_real div_by_real div_real_by_int\<close>)

lemma sint_eq_numeral:
  "sint q = - 3 \<Longrightarrow> q = (- 3 :: 32 word)"
  by (rule signed_word_eqI) simp

theorem arithmetic_promotion_witness:
  "op_add example_ops (pair_example (IntegerObj (- 7)) (IntegerObj 2))
     = Inr (push_new (IntegerObj (- 5))
         ((pair_example (IntegerObj (- 7)) (IntegerObj 2))\<lparr>stack := []\<rparr>))
   \<and> op_div example_ops (pair_example (IntegerObj (- 7)) (IntegerObj 2))
     = Inr (push_new (IntegerObj (- 3))
         ((pair_example (IntegerObj (- 7)) (IntegerObj 2))\<lparr>stack := []\<rparr>))
   \<and> op_add example_ops (pair_example (IntegerObj 1) (RealObj (round_double False 5 2)))
     = Inr (push_new (RealObj (round_double False 7 2))
         ((pair_example (IntegerObj 1) (RealObj (round_double False 5 2)))\<lparr>stack := []\<rparr>))
   \<and> op_div example_ops (pair_example (IntegerObj 1) (RealObj (round_double False 5 2)))
     = Inr (push_new (RealObj (round_double False 2 5))
         ((pair_example (IntegerObj 1) (RealObj (round_double False 5 2)))\<lparr>stack := []\<rparr>))
   \<and> op_div example_ops (pair_example (RealObj (double_of_int 5)) (IntegerObj 2))
     = Inr (push_new (RealObj (round_double False 5 2))
         ((pair_example (RealObj (double_of_int 5)) (IntegerObj 2))\<lparr>stack := []\<rparr>))
   \<and> op_add example_ops
       (pair_example (RealObj (round_double False 1 10)) (RealObj (round_double False 2 10)))
     = Inr (push_new (RealObj (Finite False 5404319552844596 (- 54)))
         ((pair_example (RealObj (round_double False 1 10))
             (RealObj (round_double False 2 10)))\<lparr>stack := []\<rparr>))
   \<and> round_double False 2 5 = Finite False 7205759403792794 (- 54)
   \<and> round_double False 3 10 = Finite False 5404319552844595 (- 54)"
proof -
  have s: "\<And>oa ob. stack (pair_example oa ob) = 2 # 1 # []"
    by (simp add: pair_example_def)
  have d: "\<And>oa ob. deref (heap (pair_example oa ob)) (Suc 0) = oa"
    "\<And>oa ob. deref (heap (pair_example oa ob)) 2 = ob"
    by (simp_all add: pair_example_def deref_def)
  have e: "d_add example_ops = double_add" "d_div example_ops = double_div"
    "d_eq example_ops = double_eq" "d_of_int example_ops = double_of_int"
    by (simp_all add: example_ops_def)
  have v: "double_add (double_of_int 1) (round_double False 5 2) = round_double False 7 2"
    "double_div (double_of_int 1) (round_double False 5 2) = round_double False 2 5"
    "double_div (double_of_int 5) (double_of_int 2) = round_double False 5 2"
    "double_add (round_double False 1 10) (round_double False 2 10)
       = Finite False 5404319552844596 (- 54)"
    "\<not> double_eq (round_double False 5 2) (double_of_int 0)"
    "round_double False 2 5 = Finite False 7205759403792794 (- 54)"
    "round_double False 3 10 = Finite False 5404319552844595 (- 54)"
    by code_simp+
  have A: "op_add example_ops (pair_example (IntegerObj (- 7)) (IntegerObj 2))
       = Inr (push_new (IntegerObj (- 5))
           ((pair_example (IntegerObj (- 7)) (IntegerObj 2))\<lparr>stack := []\<rparr>))
     \<and> op_div example_ops (pair_example (IntegerObj (- 7)) (IntegerObj 2))
       = Inr (push_new (IntegerObj (- 3))
           ((pair_example (IntegerObj (- 7)) (IntegerObj 2))\<lparr>stack := []\<rparr>))"
    using arithmetic_promotion [OF s [of "IntegerObj (- 7)" "IntegerObj 2"] refl,
        where x = "- 7" and y = 2 and u = NaN and v = NaN and fp = example_ops]
    by (auto simp add: d dest: sint_eq_numeral)
  have C: "op_add example_ops (pair_example (IntegerObj 1) (RealObj (round_double False 5 2)))
       = Inr (push_new (RealObj (round_double False 7 2))
           ((pair_example (IntegerObj 1) (RealObj (round_double False 5 2)))\<lparr>stack := []\<rparr>))
     \<and> op_div example_ops (pair_example (IntegerObj 1) (RealObj (round_double False 5 2)))
       = Inr (push_new (RealObj (round_double False 2 5))
           ((pair_example (IntegerObj 1) (RealObj (round_double False 5 2)))\<lparr>stack := []\<rparr>))"
    using arithmetic_promotion [OF s [of "IntegerObj 1" "RealObj (round_double False 5 2)"] refl,
        where x = 1 and v = "round_double False 5 2" and u = NaN and y = 0
          and fp = example_ops]
    by (simp add: d e v(1,2,5))
  have D: "op_div example_ops (pair_example (RealObj (double_of_int 5)) (IntegerObj 2))
       = Inr (push_new (RealObj (round_double False 5 2))
           ((pair_example (RealObj (double_of_int 5)) (IntegerObj 2))\<lparr>stack := []\<rparr>))"
    using arithmetic_promotion [OF s [of "RealObj (double_of_int 5)" "IntegerObj 2"] refl,
        where u = "double_of_int 5" and y = 2 and x = 0 and v = NaN and fp = example_ops]
    by (simp add: d e v(3))
  have E: "op_add example_ops
         (pair_example (RealObj (round_double False 1 10)) (RealObj (round_double False 2 10)))
       = Inr (push_new (RealObj (Finite False 5404319552844596 (- 54)))
           ((pair_example (RealObj (round_double False 1 10))
               (RealObj (round_double False 2 10)))\<lparr>stack := []\<rparr>))"
    using arithmetic_promotion
        [OF s [of "RealObj (round_double False 1 10)" "RealObj (round_double False 2 10)"] refl,
        where u = "round_double False 1 10" and v = "round_double False 2 10" and x = 0 and y = 0
          and fp = example_ops]
    by (simp add: d e v(4))
  show ?thesis
    using A C D E v(6,7) by blast
qed

text \<open>
  Against C6 as stated: the two Integers \<^verbatim>\<open>INT_MIN\<close> and \<open>-1\<close> pass the test for a zero
  divisor, and \<^verbatim>\<open>div\<close> computes \<^verbatim>\<open>a->asInteger() / b->asInteger()\<close>, whose quotient
  \<open>2\<^sup>3\<^sup>1\<close> is not an \<^verbatim>\<open>int\<close>.  The division has no defined result (the program is
  stopped by the processor's trap on the usual targets) and no Integer is pushed.  With
  the Integers 1 and 0 \<^verbatim>\<open>div\<close> throws and pushes nothing either.
\<close>

theorem div_int_min_counterexample:
  "execute example_ops 1 ''-2147483648 -1 div'' initial = Inl undefined_behaviour
   \<and> execute example_ops 1 ''-2147483648 -1'' initial
       = Inr (pair_example (IntegerObj (- 2147483648)) (IntegerObj (- 1)))
   \<and> op_div example_ops (pair_example (IntegerObj (- 2147483648)) (IntegerObj (- 1)))
       = Inl undefined_behaviour
   \<and> sgn (- 2147483648) * sgn (- 1) * (\<bar>- 2147483648\<bar> div \<bar>- 1\<bar>) = (2 ^ 31 :: int)
   \<and> execute example_ops 1 ''1 0 div'' initial = Inl (runtime_error ''Division by zero'')"
  by code_simp

section \<open>if\<close>

lemma if_example_reached:
  "execute example_ops 1 ''(s) {1}'' initial = Inr (if_example (StringObj ''(s)''))"
  "execute example_ops 1 ''true {1}'' initial = Inr (if_example (BooleanObj True))"
  by code_simp+

lemma op_if_ok:
  assumes "stack st = procObj # conditionObj # rest"
    and "deref (heap st) procObj = ProcedureObj proc"
  shows "op_if fp exec st
    = (if condition fp (deref (heap st) conditionObj)
       then replay exec proc (st\<lparr>stack := rest\<rparr>) else Inr (st\<lparr>stack := rest\<rparr>))"
  using assms by (simp add: op_if_def Let_def)

text \<open>
  Claim C3, as amended.  With a condition and a procedure on the stack, \<^verbatim>\<open>if\<close> pops
  both and replays the procedure's tokens exactly when the condition is true, where
  the condition is: a Boolean is its value, an Integer is true unless it is 0, a Real
  is true unless it compares equal to 0.0, and a condition of any other type is
  \<^emph>\<open>false\<close> (the claim as stated has it true).
\<close>

theorem if_truthiness:
  assumes "stack st = procObj # conditionObj # rest"
    and "deref (heap st) procObj = ProcedureObj proc"
  shows "op_if fp exec st
           = (if condition fp (deref (heap st) conditionObj)
              then replay exec proc (st\<lparr>stack := rest\<rparr>) else Inr (st\<lparr>stack := rest\<rparr>))
       \<and> condition fp (BooleanObj bv) = bv
       \<and> condition fp (IntegerObj i) = (i \<noteq> 0)
       \<and> condition fp (RealObj d) = (\<not> d_eq fp d (d_of_int fp 0))
       \<and> (getType c \<noteq> BOOLEAN \<and> getType c \<noteq> INTEGER \<and> getType c \<noteq> REAL
            \<longrightarrow> condition fp c = False)"
  using op_if_ok [OF assms] by (cases c) (simp_all add: condition_def)

theorem if_truthiness_witness:
  "op_if example_ops (executeToken example_ops 1) (if_example (StringObj ''(s)''))
     = Inr ((if_example (StringObj ''(s)''))\<lparr>stack := []\<rparr>)
   \<and> op_if example_ops (executeToken example_ops 1) (if_example (BooleanObj True))
     = Inr (push_new (IntegerObj 1) ((if_example (BooleanObj True))\<lparr>stack := []\<rparr>))"
proof -
  have s: "\<And>cond. stack (if_example cond) = 2 # 1 # []"
    by (simp add: if_example_def pair_example_def)
  have d: "\<And>cond. deref (heap (if_example cond)) 2 = ProcedureObj [''1'']"
    "\<And>cond. deref (heap (if_example cond)) 1 = cond"
    by (simp_all add: if_example_def pair_example_def deref_def)
  have c: "\<not> condition example_ops (StringObj ''(s)'')" "condition example_ops (BooleanObj True)"
    by (simp_all add: condition_def)
  have r: "replay (executeToken example_ops 1) [''1''] ((if_example (BooleanObj True))\<lparr>stack := []\<rparr>)
      = Inr (push_new (IntegerObj 1) ((if_example (BooleanObj True))\<lparr>stack := []\<rparr>))"
    by code_simp
  have A: "op_if example_ops (executeToken example_ops 1) (if_example (StringObj ''(s)''))
      = Inr ((if_example (StringObj ''(s)''))\<lparr>stack := []\<rparr>)"
    using if_truthiness [OF s d(1), THEN conjunct1, of example_ops "executeToken example_ops 1"
        "StringObj ''(s)''"]
    by (simp only: d c if_False)
  have B: "op_if example_ops (executeToken example_ops 1) (if_example (BooleanObj True))
      = Inr (push_new (IntegerObj 1) ((if_example (BooleanObj True))\<lparr>stack := []\<rparr>))"
    using if_truthiness [OF s d(1), THEN conjunct1, of example_ops "executeToken example_ops 1"
        "BooleanObj True"]
    by (simp only: d c r if_True)
  show ?thesis
    using A B by (rule conjI)
qed

text \<open>Against C3 as stated: in \<^verbatim>\<open>(s) {1} if\<close> the condition is a String, it counts
  as false, and \<^verbatim>\<open>if\<close> leaves the stack empty although replaying \<^verbatim>\<open>{1}\<close> would
  not.\<close>

theorem if_other_type_counterexample:
  "\<not> condition example_ops (StringObj ''(s)'')
   \<and> op_if example_ops (executeToken example_ops 1) (if_example (StringObj ''(s)''))
       = Inr ((if_example (StringObj ''(s)''))\<lparr>stack := []\<rparr>)
   \<and> replay (executeToken example_ops 1) [''1''] ((if_example (StringObj ''(s)''))\<lparr>stack := []\<rparr>)
       \<noteq> Inr ((if_example (StringObj ''(s)''))\<lparr>stack := []\<rparr>)"
  by code_simp


section \<open>dup, exch and put\<close>

lemma dup_example_reached: "execute example_ops 1 ''0 2 array'' initial = Inr dup_example"
  by code_simp

lemma dup_exch_ok:
  assumes "stack st = a # rest"
  shows "and_then (op_dup st) op_exch
    = Inr (st\<lparr>heap := heap st @ [deref (heap st) a], stack := a # length (heap st) # rest\<rparr>)"
  using assms
  by (simp add: op_dup_def stack_dup_def op_exch_def stack_exch_def push_new_def make_shared_def
      stack_push_def)

lemma deref_append_old: "p < length h \<Longrightarrow> deref (h @ [obj]) p = deref h p"
  by (simp add: deref_def nth_append)

lemma deref_append_new: "deref (h @ [obj]) (length h) = obj"
  by (simp add: deref_def)

lemma deref_update_other: "p \<noteq> q \<Longrightarrow> deref (h[q := obj]) p = deref h p"
  by (simp add: deref_def)

lemma op_put_ok:
  assumes "stack st = v # idx # arr # rest" "deref (heap st) arr = ArrayObj xs"
    "deref (heap st) idx = IntegerObj i" "0 \<le> sint i" "nat (sint i) < length xs"
  shows "op_put st
    = Inr (st\<lparr>stack := arr # rest, heap := (heap st)[arr := ArrayObj (xs[nat (sint i) := v])]\<rparr>)"
  using assms by (simp add: op_put_def Let_def arraySet_def stack_push_def)

text \<open>
  Claim C2, as amended.  \<^verbatim>\<open>PSStack::dup\<close> pushes a handle to a \<^emph>\<open>new copy\<close> of the top
  object.  For an Array on top, \<^verbatim>\<open>dup\<close> followed by \<^verbatim>\<open>exch\<close> leaves two different
  handles \<open>a\<close> (the original) and \<open>c\<close> (the copy) on top, whose arrays hold the same
  element handles; a \<^verbatim>\<open>put\<close> through either handle changes the array behind that
  handle only, and the array behind the other one is as before.  The claim as stated
  has one shared array behind both entries.
\<close>

theorem dup_copies_the_array:
  assumes "stack st = a # rest" and "deref (heap st) a = ArrayObj xs"
    and "c = length (heap st)"
    and "s1 = st\<lparr>heap := heap st @ [ArrayObj xs], stack := a # c # rest\<rparr>"
  shows "and_then (op_dup st) op_exch = Inr s1
       \<and> a \<noteq> c
       \<and> deref (heap s1) a = ArrayObj xs \<and> deref (heap s1) c = ArrayObj xs
       \<and> (deref (heap s1) idx = IntegerObj i \<and> 0 \<le> sint i \<and> nat (sint i) < length xs \<longrightarrow>
            result_deref (op_put (s1\<lparr>stack := v # idx # a # c # rest\<rparr>)) a
              = Inr (ArrayObj (xs[nat (sint i) := v]))
          \<and> result_deref (op_put (s1\<lparr>stack := v # idx # a # c # rest\<rparr>)) c
              = Inr (ArrayObj xs)
          \<and> result_deref (op_put (s1\<lparr>stack := v # idx # c # a # rest\<rparr>)) c
              = Inr (ArrayObj (xs[nat (sint i) := v]))
          \<and> result_deref (op_put (s1\<lparr>stack := v # idx # c # a # rest\<rparr>)) a
              = Inr (ArrayObj xs))"
proof -
  have lt: "a < length (heap st)" using assms(2) by (rule deref_ArrayObj_lt)
  have ne: "a \<noteq> c" using lt assms(3) by simp
  have run: "and_then (op_dup st) op_exch = Inr s1"
    using dup_exch_ok [OF assms(1)] assms(2,3,4) by simp
  have da: "deref (heap s1) a = ArrayObj xs"
    using lt assms(2,4) by (simp add: deref_append_old)
  have dc: "deref (heap s1) c = ArrayObj xs"
    using assms(3,4) by (simp add: deref_append_new)
  have lc: "c < length (heap s1)" using assms(3,4) by simp
  have la: "a < length (heap s1)" using lt assms(4) by simp
  {
    assume i: "deref (heap s1) idx = IntegerObj i" "0 \<le> sint i" "nat (sint i) < length xs"
    let ?sa = "s1\<lparr>stack := v # idx # a # c # rest\<rparr>"
    let ?sc = "s1\<lparr>stack := v # idx # c # a # rest\<rparr>"
    have pa: "op_put ?sa
        = Inr (?sa\<lparr>stack := a # c # rest,
                   heap := (heap ?sa)[a := ArrayObj (xs[nat (sint i) := v])]\<rparr>)"
      using da i by (intro op_put_ok) simp_all
    have pc: "op_put ?sc
        = Inr (?sc\<lparr>stack := c # a # rest,
                   heap := (heap ?sc)[c := ArrayObj (xs[nat (sint i) := v])]\<rparr>)"
      using dc i by (intro op_put_ok) simp_all
    have "result_deref (op_put ?sa) a = Inr (ArrayObj (xs[nat (sint i) := v]))"
      "result_deref (op_put ?sa) c = Inr (ArrayObj xs)"
      "result_deref (op_put ?sc) c = Inr (ArrayObj (xs[nat (sint i) := v]))"
      "result_deref (op_put ?sc) a = Inr (ArrayObj xs)"
      using ne la lc da dc
      by (simp_all add: pa pc result_deref_def deref_update_same deref_update_other)
  }
  with run ne da dc show ?thesis by blast
qed

theorem dup_copies_the_array_witness:
  "and_then (op_dup dup_example) op_exch
     = Inr (dup_example\<lparr>heap := heap dup_example @ [ArrayObj [3, 4]], stack := [5, 6, 1]\<rparr>)
   \<and> result_deref (op_put
        (dup_example\<lparr>heap := heap dup_example @ [ArrayObj [3, 4]], stack := [2, 1, 5, 6, 1]\<rparr>)) 5
       = Inr (ArrayObj [2, 4])
   \<and> result_deref (op_put
        (dup_example\<lparr>heap := heap dup_example @ [ArrayObj [3, 4]], stack := [2, 1, 5, 6, 1]\<rparr>)) 6
       = Inr (ArrayObj [3, 4])"
proof -
  have s: "stack dup_example = 5 # [1]"
    and d: "deref (heap dup_example) 5 = ArrayObj [3, 4]"
    and c: "6 = length (heap dup_example)"
    by (simp_all add: dup_example_def deref_def)
  have i: "deref (heap (dup_example\<lparr>heap := heap dup_example @ [ArrayObj [3, 4]],
      stack := 5 # 6 # [1]\<rparr>)) 1 = IntegerObj 0"
    by (simp add: dup_example_def deref_def)
  show ?thesis
    using dup_copies_the_array [OF s d c refl, of 1 0 2] i by simp
qed

text \<open>Against C2 as stated: after \<^verbatim>\<open>2 array dup exch 0 7 put\<close> the two entries on
  the stack are arrays that differ in slot 0 (handle 7 is the Integer 7, handles 2 and
  3 are the two nulls).\<close>

theorem dup_identity_counterexample:
  "stack_values (execute example_ops 1 ''2 array dup exch 0 7 put'' initial)
     = Inr [ArrayObj [7, 3], ArrayObj [2, 3]]"
  by code_simp

section \<open>Name lookup and operator dispatch\<close>

text \<open>
  Claim C1 fails on the code.  \<^verbatim>\<open>executeToken\<close> looks a bare token up in the current
  dictionary but acts on the value only when it is a Procedure; for any other value
  control falls through to the literal checks, and a name that is no literal ends as a
  String holding the name itself.  After \<^verbatim>\<open>/x 5 def\<close> the token \<^verbatim>\<open>x\<close> leaves the
  String \<^verbatim>\<open>x\<close> on top of the stack, not the Integer 5.
\<close>

theorem bare_name_of_a_number_pushes_the_name:
  "peek_value (execute example_ops 1 ''/x 5 def x'' initial) = Inr (StringObj ''x'')"
  by code_simp

lemma lookup_procedure_other_value:
  assumes "getCurrentDictionary st = Some d" "deref (heap st) d = DictionaryObj al"
    "map_of al token = Some p" "getType (deref (heap st) p) \<noteq> PROCEDURE"
  shows "lookup_procedure st token = None"
  using assms by (cases "deref (heap st) p") (simp_all add: lookup_procedure_def dictHas_def dictGet_def)

lemma bound_procedure_is_replayed:
  assumes "token \<noteq> []" "\<not> hasOperator fp token"
    "\<not> (length token > 1 \<and> hd token = CHR ''/'')"
    "lookup_procedure st token = Some proc"
  shows "executeToken fp (Suc n) token st = replay (executeToken fp n) proc st"
  using assms by auto

text \<open>
  Claim C10.  A token that names a registered operator runs that operator, in every
  state: the dictionary is not consulted, so a definition under the same name never
  takes its place.
\<close>

theorem operators_are_dispatched_first:
  assumes "getOperator fp token = Some op"
  shows "executeToken fp (Suc n) token st = op (executeToken fp n) st"
proof -
  have "token \<noteq> []"
    using assms by (auto simp: getOperator_def operators_def)
  with assms show ?thesis by (simp add: hasOperator_def)
qed

lemma shadow_example_reached:
  "execute example_ops 2 ''/add {sub} def 5 3'' initial = Inr shadow_example"
  by code_simp

theorem operators_are_dispatched_first_witness:
  "lookup_procedure shadow_example ''add'' = Some [''sub'']
   \<and> executeToken example_ops 1 ''add'' shadow_example = op_add example_ops shadow_example
   \<and> peek_value (executeToken example_ops 1 ''add'' shadow_example) = Inr (IntegerObj 8)"
proof -
  have g: "getOperator example_ops ''add'' = Some (\<lambda>exec. op_add example_ops)"
    by (simp add: getOperator_def operators_def)
  have e: "executeToken example_ops (Suc 0) ''add'' shadow_example = op_add example_ops shadow_example"
    using operators_are_dispatched_first [OF g, of 0 shadow_example] .
  have l: "lookup_procedure shadow_example ''add'' = Some [''sub'']"
    by code_simp
  have p: "peek_value (op_add example_ops shadow_example) = Inr (IntegerObj 8)"
    by code_simp
  show ?thesis
    using e l p by simp
qed


section \<open>gsave and grestore\<close>

text \<open>No operator empties the graphics stack.\<close>

lemma gs_ok_simps [simp]:
  "gs_ok (Inl e)" "gs_ok (Inr s) = (graphicsStack s \<noteq> [])"
  by (simp_all add: gs_ok_def)

lemma gs_ok_and_then: "(\<And>x. m = Inr x \<Longrightarrow> gs_ok (f x)) \<Longrightarrow> gs_ok (and_then m f)"
  by (cases m) simp_all

lemma gs_push_new [simp]: "graphicsStack (push_new obj st) = graphicsStack st"
  by (simp add: push_new_def make_shared_def stack_push_def)

lemma gs_stack_push [simp]: "graphicsStack (stack_push p st) = graphicsStack st"
  by (simp add: stack_push_def)

lemma gs_ok_arith: "graphicsStack st \<noteq> [] \<Longrightarrow> gs_ok (arith name iop dop fp st)"
  by (auto simp: arith_def Let_def intro!: gs_ok_and_then split: list.split)

lemma gs_ok_compare: "graphicsStack st \<noteq> [] \<Longrightarrow> gs_ok (compare name iop dop fp st)"
  by (auto simp: compare_def Let_def intro!: gs_ok_and_then split: list.split)

lemma gs_ok_div: "graphicsStack st \<noteq> [] \<Longrightarrow> gs_ok (op_div fp st)"
  by (auto simp: op_div_def Let_def intro!: gs_ok_and_then split: list.split)

lemma gs_ok_stack_ops:
  assumes "graphicsStack st \<noteq> []"
  shows "gs_ok (op_dup st)" "gs_ok (op_pop st)" "gs_ok (op_exch st)" "gs_ok (op_clear st)"
    "gs_ok (op_stack st)" "gs_ok (op_show st)"
  using assms
  by (auto simp: op_dup_def stack_dup_def op_pop_def stack_pop_def op_exch_def stack_exch_def
      op_clear_def stack_clear_def op_stack_def op_show_def split: list.split)

lemma gs_ok_eq: "graphicsStack st \<noteq> [] \<Longrightarrow> gs_ok (op_eq fp st)"
  by (auto simp: op_eq_def Let_def split: list.split)

lemma gs_ok_ne: "graphicsStack st \<noteq> [] \<Longrightarrow> gs_ok (op_ne fp st)"
  by (auto simp: op_ne_def op_eq_def Let_def stack_pop_def push_new_def make_shared_def stack_push_def
      intro!: gs_ok_and_then split: list.split)

lemma gs_make_nulls: "make_nulls k st = (ps, st') \<Longrightarrow> graphicsStack st' = graphicsStack st"
  by (induction k arbitrary: st ps st') (auto simp: make_shared_def split: prod.splits)

lemma gs_make_keys: "make_keys ks st = (ps, st') \<Longrightarrow> graphicsStack st' = graphicsStack st"
  by (induction ks arbitrary: st ps st') (auto simp: make_shared_def split: prod.splits)

lemma gs_arraySet: "arraySet p i v st = Inr st' \<Longrightarrow> graphicsStack st' = graphicsStack st"
  by (auto simp: arraySet_def split: PSObject.splits if_splits)

lemma gs_dictPut: "dictPut p k v st = Inr st' \<Longrightarrow> graphicsStack st' = graphicsStack st"
  by (auto simp: dictPut_def split: PSObject.splits)

lemma gs_astore_loop: "astore_loop i a st = Inr st' \<Longrightarrow> graphicsStack st' = graphicsStack st"
proof (induction i arbitrary: st)
  case 0
  then show ?case by simp
next
  case (Suc i)
  then show ?case
    by (auto simp: stack_pop_def split: list.splits sum.splits dest!: gs_arraySet)
qed

lemma gs_ok_array_ops:
  assumes "graphicsStack st \<noteq> []"
  shows "gs_ok (op_array st)" "gs_ok (op_get st)" "gs_ok (op_put st)" "gs_ok (op_length st)"
    "gs_ok (op_aload st)" "gs_ok (op_astore st)"
  using assms
  by (auto simp: op_array_def op_get_def op_put_def op_length_def op_aload_def op_astore_def
      Let_def fold_stack_push
      intro!: gs_ok_and_then dest!: gs_make_nulls gs_arraySet gs_astore_loop
      split: list.split PSObject.split prod.split)

lemma gs_ok_dictPut: "graphicsStack st \<noteq> [] \<Longrightarrow> gs_ok (dictPut p k v st)"
  by (auto simp: dictPut_def split: PSObject.split)

lemma gs_ok_dict_ops:
  assumes "graphicsStack st \<noteq> []"
  shows "gs_ok (op_dict st)" "gs_ok (op_def st)" "gs_ok (op_load st)" "gs_ok (op_store st)"
    "gs_ok (op_known st)" "gs_ok (op_keys fp st)"
  using assms
  by (auto simp: op_dict_def op_def_def op_load_def op_store_def op_known_def op_keys_def
      dictKeys_def Let_def
      intro!: gs_ok_and_then gs_ok_dictPut dest!: gs_make_keys
      split: list.split PSObject.split prod.split option.split option.split_asm)

lemma gs_ok_replay:
  "keeps_gs exec \<Longrightarrow> graphicsStack st \<noteq> [] \<Longrightarrow> gs_ok (replay exec proc st)"
proof (induction proc arbitrary: st)
  case Nil
  then show ?case by simp
next
  case (Cons t proc)
  have "gs_ok (exec t st)"
    using Cons.prems by (simp add: keeps_gs_def)
  then show ?case
    using Cons by (cases "exec t st") simp_all
qed

lemma gs_ok_forall_loop:
  "keeps_gs exec \<Longrightarrow> graphicsStack st \<noteq> [] \<Longrightarrow> gs_ok (forall_loop exec proc array st)"
proof (induction array arbitrary: st)
  case Nil
  then show ?case by simp
next
  case (Cons e array)
  have "gs_ok (replay exec proc (stack_push e st))"
    using Cons.prems by (intro gs_ok_replay) simp_all
  then show ?case
    using Cons by (cases "replay exec proc (stack_push e st)") simp_all
qed

lemma gs_ok_repeat_loop:
  "keeps_gs exec \<Longrightarrow> graphicsStack st \<noteq> [] \<Longrightarrow> gs_ok (repeat_loop exec proc k st)"
proof (induction k arbitrary: st)
  case 0
  then show ?case by simp
next
  case (Suc k)
  have "gs_ok (replay exec proc st)"
    using Suc.prems by (intro gs_ok_replay)
  then show ?case
    using Suc by (cases "replay exec proc st") simp_all
qed

lemma gs_ok_for_up:
  "keeps_gs exec \<Longrightarrow> graphicsStack st \<noteq> []
    \<Longrightarrow> gs_ok (for_up k exec proc i e increment st)"
proof (induction k exec proc i e increment st rule: for_up.induct)
  case (1 k exec proc i e increment st)
  show ?case
  proof (cases "sint i \<le> sint e \<and> 0 < k")
    case False
    then show ?thesis
      using "1.prems" by (subst for_up.simps) auto
  next
    case True
    have r: "gs_ok (replay exec proc (push_new (IntegerObj i) st))"
      using "1.prems" by (intro gs_ok_replay) simp_all
    show ?thesis
    proof (cases "replay exec proc (push_new (IntegerObj i) st)")
      case (Inl err)
      then show ?thesis
        using True by (subst for_up.simps) simp
    next
      case (Inr st1)
      then have "graphicsStack st1 \<noteq> []"
        using r by simp
      then have "gs_ok (for_up (k - 1) exec proc (i + increment) e increment st1)"
        using True Inr "1.prems"(1) by (intro "1.IH") simp_all
      then show ?thesis
        using True Inr by (subst for_up.simps) simp
    qed
  qed
qed

lemma gs_ok_for_down:
  "keeps_gs exec \<Longrightarrow> graphicsStack st \<noteq> []
    \<Longrightarrow> gs_ok (for_down k exec proc i e increment st)"
proof (induction k exec proc i e increment st rule: for_down.induct)
  case (1 k exec proc i e increment st)
  show ?case
  proof (cases "sint e \<le> sint i \<and> 0 < k")
    case False
    then show ?thesis
      using "1.prems" by (subst for_down.simps) auto
  next
    case True
    have r: "gs_ok (replay exec proc (push_new (IntegerObj i) st))"
      using "1.prems" by (intro gs_ok_replay) simp_all
    show ?thesis
    proof (cases "replay exec proc (push_new (IntegerObj i) st)")
      case (Inl err)
      then show ?thesis
        using True by (subst for_down.simps) simp
    next
      case (Inr st1)
      then have "graphicsStack st1 \<noteq> []"
        using r by simp
      then have "gs_ok (for_down (k - 1) exec proc (i + increment) e increment st1)"
        using True Inr "1.prems"(1) by (intro "1.IH") simp_all
      then show ?thesis
        using True Inr by (subst for_down.simps) simp
    qed
  qed
qed

lemma gs_ok_control_ops:
  assumes "keeps_gs exec" "graphicsStack st \<noteq> []"
  shows "gs_ok (op_exec exec st)" "gs_ok (op_forall exec st)" "gs_ok (op_if fp exec st)"
    "gs_ok (op_ifelse fp exec st)" "gs_ok (op_repeat exec st)" "gs_ok (op_for exec st)"
  using assms
  by (auto simp: op_exec_def op_forall_def op_if_def op_ifelse_def op_repeat_def op_for_def
      Let_def
      intro!: gs_ok_and_then gs_ok_replay gs_ok_forall_loop gs_ok_repeat_loop gs_ok_for_up
        gs_ok_for_down
      split: list.split PSObject.split)

lemma tl_not_Nil: "\<not> length xs \<le> Suc 0 \<Longrightarrow> tl xs \<noteq> []"
  by (cases xs) auto

lemma gs_ok_update_gs: "gs_ok (update_gs f st)"
  by (simp add: update_gs_def split: list.split)

lemma gs_ok_graphics_ops:
  assumes "graphicsStack st \<noteq> []"
  shows "gs_ok (path_to name seg fp st)" "gs_ok (op_closepath st)" "gs_ok (op_stroke st)"
    "gs_ok (op_fill st)" "gs_ok (op_newpath st)" "gs_ok (op_gsave st)" "gs_ok (op_grestore st)"
    "gs_ok (op_translate fp st)" "gs_ok (op_scale fp st)" "gs_ok (op_rotate fp st)"
    "gs_ok (op_setrgbcolor fp st)" "gs_ok (op_setlinewidth fp st)" "gs_ok (op_showpage st)"
  using assms
  by (auto simp: path_to_def op_closepath_def op_stroke_def op_fill_def op_newpath_def
      op_gsave_def op_grestore_def op_translate_def op_scale_def op_rotate_def
      op_setrgbcolor_def op_setlinewidth_def op_showpage_def Let_def gs_ok_update_gs
      tl_not_Nil
      intro!: gs_ok_and_then split: list.split option.split)

lemma gs_ok_operator:
  assumes "getOperator fp token = Some op" "keeps_gs exec" "graphicsStack st \<noteq> []"
  shows "gs_ok (op exec st)"
proof -
  have "(token, op) \<in> set (operators fp)"
    using assms(1) unfolding getOperator_def by (rule map_of_SomeD)
  then show ?thesis
    using assms(2,3)
    by (auto simp: operators_def op_add_def op_sub_def op_mul_def op_lt_def op_le_def
        op_gt_def op_ge_def op_moveto_def op_lineto_def
        gs_ok_arith gs_ok_compare gs_ok_div gs_ok_stack_ops gs_ok_eq gs_ok_ne
        gs_ok_array_ops gs_ok_dict_ops gs_ok_control_ops gs_ok_graphics_ops)
qed

lemma gs_ok_literal:
  assumes "graphicsStack s \<noteq> []"
  shows "gs_ok (case r of Inl e \<Rightarrow> Inl e | Inr (x, h) \<Rightarrow> Inr (push_new (f x) (s\<lparr>heap := h\<rparr>)))"
  using assms by (cases r) auto

lemma executeToken_keeps_gs: "keeps_gs (executeToken fp n)"
proof (induction n)
  case 0
  then show ?case by (simp add: keeps_gs_def)
next
  case (Suc n)
  show ?case
    unfolding keeps_gs_def
  proof (intro allI impI)
    fix t and s :: "'a PSInterpreter"
    assume gs: "graphicsStack s \<noteq> []"
    show "gs_ok (executeToken fp (Suc n) t s)"
    proof (cases "t = []")
      case True
      then show ?thesis using gs by simp
    next
      case nonempty: False
      show ?thesis
      proof (cases "getOperator fp t")
        case (Some op)
        have "gs_ok (op (executeToken fp n) s)"
          using Some Suc gs by (rule gs_ok_operator)
        then show ?thesis using nonempty Some by (simp add: hasOperator_def)
      next
        case noop: None
        show ?thesis
        proof (cases "length t > 1 \<and> hd t = CHR ''/''")
          case True
          then show ?thesis using nonempty noop gs by (simp add: hasOperator_def)
        next
          case noname: False
          show ?thesis
          proof (cases "lookup_procedure s t")
            case (Some procedure)
            have "gs_ok (replay (executeToken fp n) procedure s)"
              using Suc gs by (rule gs_ok_replay)
            then show ?thesis using nonempty noop noname Some gs by (simp add: hasOperator_def)
          next
            case noproc: None
            show ?thesis
            proof (cases "parse_number fp t")
              case (Returns obj)
              then show ?thesis using nonempty noop noname noproc gs by (simp add: hasOperator_def)
            next
              case Unspecified
              then show ?thesis using nonempty noop noname noproc gs by (simp add: hasOperator_def)
            next
              case Throws
              then show ?thesis
                using nonempty noop noname noproc gs
                by (simp add: gs_ok_literal hasOperator_def)
            qed
          qed
        qed
      qed
    qed
  qed
qed

lemma reachable_graphicsStack: "reachable fp st \<Longrightarrow> graphicsStack st \<noteq> []"
proof (induction rule: reachable.induct)
  case (reachable_new h)
  then show ?case by (simp add: PSInterpreter_new_def)
next
  case (reachable_step st n token st')
  have "gs_ok (executeToken fp n token st)"
    using executeToken_keeps_gs [of fp n] reachable_step.IH by (simp add: keeps_gs_def)
  then show ?case
    using reachable_step.hyps(2) by simp
qed

text \<open>
  Claim C8.  In every reachable state of the interpreter \<^verbatim>\<open>gsave\<close> pushes a copy of the
  current graphics state (every field, the whole path included), and \<^verbatim>\<open>gsave\<close>
  followed at once by \<^verbatim>\<open>grestore\<close> succeeds and gives back the state it started from:
  the same current graphics state and the same depth of the graphics stack.
\<close>

theorem gsave_grestore_roundtrip:
  assumes "reachable fp st"
  shows "and_then (op_gsave st) op_grestore = Inr st
       \<and> op_gsave st = Inr (st\<lparr>graphicsStack := hd (graphicsStack st) # graphicsStack st\<rparr>)"
proof -
  have "graphicsStack st \<noteq> []"
    using assms by (rule reachable_graphicsStack)
  then show ?thesis
    by (cases "graphicsStack st") (simp_all add: op_gsave_def op_grestore_def)
qed

lemma path_example_reached:
  "execute example_ops 1 ''gsave 10 20 moveto 30 40 lineto'' initial = Inr path_example"
  by code_simp

lemma reachable_replay:
  "reachable fp st \<Longrightarrow> replay (executeToken fp n) proc st = Inr st' \<Longrightarrow> reachable fp st'"
proof (induction proc arbitrary: st)
  case Nil
  then show ?case by simp
next
  case (Cons t proc)
  then show ?case
    by (auto split: sum.splits intro: reachable_step)
qed

lemma path_example_reachable: "reachable example_ops path_example"
proof -
  have "reachable example_ops initial"
    unfolding initial_def by (rule reachable_new)
  then show ?thesis
    using path_example_reached unfolding execute_def by (rule reachable_replay)
qed

theorem gsave_grestore_roundtrip_witness:
  "and_then (op_gsave path_example) op_grestore = Inr path_example
   \<and> op_gsave path_example
       = Inr (path_example\<lparr>graphicsStack := hd (graphicsStack path_example) # graphicsStack path_example\<rparr>)"
  using gsave_grestore_roundtrip [OF path_example_reachable] .


section \<open>Decoding a cross-reference stream\<close>

lemma drop_nth_Cons: "i < length xs \<Longrightarrow> drop i xs = xs ! i # drop (Suc i) xs"
  by (simp add: Cons_nth_drop_Suc)

lemma take1: "Suc off \<le> length data \<Longrightarrow> take (Suc 0) (drop off data) = [data ! off]"
  by (simp add: drop_nth_Cons)

lemma take2: "off + 2 \<le> length data \<Longrightarrow> take 2 (drop off data) = [data ! off, data ! (off + 1)]"
  by (simp add: drop_nth_Cons numeral_2_eq_2)

lemma take3: "off + 3 \<le> length data
    \<Longrightarrow> take 3 (drop off data) = [data ! off, data ! (off + 1), data ! (off + 2)]"
  by (simp add: drop_nth_Cons numeral_3_eq_3)

lemma take4: "off + 4 \<le> length data
    \<Longrightarrow> take 4 (drop off data) = [data ! off, data ! (off + 1), data ! (off + 2), data ! (off + 3)]"
  by (simp add: drop_nth_Cons eval_nat_numeral)

lemma read_type_big_endian:
  assumes "tw = 1 \<or> tw = 2 \<or> tw = 4" "off + tw \<le> length data"
  shows "read_type tw data off = big_endian (take tw (drop off data))"
  using assms
  by (auto simp: read_type_def readBigEndian8_def readBigEndian16_def readBigEndian32_def
      big_endian_def take1 take2 take4 push_bit_or push_bit_push_bit or.assoc)

lemma read_field_big_endian:
  assumes "w = 1 \<or> w = 2 \<or> w = 3 \<or> w = 4" "off + w \<le> length data"
  shows "read_field w data off = Inr (big_endian (take w (drop off data)))"
  using assms
  by (auto simp: read_field_def readBigEndian8_def readBigEndian16_def readBigEndian32_def
      char_at_def big_endian_def take1 take2 take3 take4 push_bit_or push_bit_push_bit or.assoc)

lemma read_field_returns:
  assumes "off + w \<le> length data"
  shows "\<exists>v. read_field w data off = Inr v"
  using assms by (auto simp: read_field_def char_at_def)

lemma xref_entry_at:
  assumes tw: "tw = 1 \<or> tw = 2 \<or> tw = 4" and f1w: "f1w = 1 \<or> f1w = 2 \<or> f1w = 3 \<or> f1w = 4"
    and len: "off + (tw + f1w + f2w) \<le> length data"
  shows "xref_entry tw f1w f2w data objNum (off, m)
    = Inr (off + tw + f1w + f2w,
           if big_endian (take tw (drop off data)) = 1
           then AList.update objNum (unat (big_endian (take f1w (drop (off + tw) data)))) m
           else m)"
proof -
  have ty: "read_type tw data off = big_endian (take tw (drop off data))"
    using tw len by (intro read_type_big_endian) simp_all
  have f1: "read_field f1w data (off + tw) = Inr (big_endian (take f1w (drop (off + tw) data)))"
    using f1w len by (intro read_field_big_endian) simp_all
  obtain v2 where f2: "read_field f2w data (off + tw + f1w) = Inr v2"
    using read_field_returns [of "off + tw + f1w" f2w data] len by auto
  show ?thesis
    by (simp add: xref_entry_def Let_def ty f1 f2)
qed

lemma xref_entry_in_range:
  assumes tw: "tw = 1 \<or> tw = 2 \<or> tw = 4" and f1w: "f1w = 1 \<or> f1w = 2 \<or> f1w = 3 \<or> f1w = 4"
    and len: "Suc k * (tw + f1w + f2w) \<le> length data"
  shows "xref_entry tw f1w f2w data objNum (k * (tw + f1w + f2w), m)
    = Inr (Suc k * (tw + f1w + f2w),
           if big_endian (take tw (xref_record (tw + f1w + f2w) data k)) = 1
           then AList.update objNum
                  (unat (big_endian (take f1w (drop tw (xref_record (tw + f1w + f2w) data k))))) m
           else m)"
proof -
  define off where "off = k * (tw + f1w + f2w)"
  have next_off: "Suc k * (tw + f1w + f2w) = off + tw + f1w + f2w"
    by (simp add: off_def)
  have in_range: "off + (tw + f1w + f2w) \<le> length data"
    using len by (simp add: off_def)
  have r0: "take tw (xref_record (tw + f1w + f2w) data k) = take tw (drop off data)"
    by (simp add: xref_record_def min_def off_def)
  have r1: "take f1w (drop tw (xref_record (tw + f1w + f2w) data k))
      = take f1w (drop (off + tw) data)"
    by (simp add: xref_record_def drop_take min_def add.commute off_def)
  show ?thesis
    unfolding r0 r1 next_off off_def [symmetric]
    by (rule xref_entry_at [OF tw f1w in_range])
qed

lemma xref_entries_spec:
  assumes tw: "tw = 1 \<or> tw = 2 \<or> tw = 4" and f1w: "f1w = 1 \<or> f1w = 2 \<or> f1w = 3 \<or> f1w = 4"
  shows "(k + length ns) * (tw + f1w + f2w) \<le> length data
    \<Longrightarrow> xref_entries tw f1w f2w data ns (k * (tw + f1w + f2w), m)
        = Inr ((k + length ns) * (tw + f1w + f2w), spec_records tw f1w f2w data k ns m)"
proof (induction ns arbitrary: k m)
  case Nil
  then show ?case by simp
next
  case (Cons objNum ns)
  have one: "Suc k * (tw + f1w + f2w) \<le> length data"
  proof -
    have "Suc k * (tw + f1w + f2w) \<le> (k + length (objNum # ns)) * (tw + f1w + f2w)"
      by (intro mult_le_mono1) simp
    then show ?thesis using Cons.prems by (rule order_trans)
  qed
  have rest: "(Suc k + length ns) * (tw + f1w + f2w) \<le> length data"
    using Cons.prems by simp
  have eq: "Suc k + length ns = k + length (objNum # ns)"
    by simp
  show ?case
    unfolding eq [symmetric]
    by (simp add: xref_entry_in_range [OF tw f1w one] Cons.IH [OF rest] Let_def
        del: mult_Suc add_Suc)
qed

lemma spec_records_append:
  "spec_records w0 w1 w2 data k (xs @ ys) m
    = spec_records w0 w1 w2 data (k + length xs) ys (spec_records w0 w1 w2 data k xs m)"
  by (induction xs arbitrary: k m) (simp_all add: Let_def)

lemma xref_sections_spec:
  assumes tw: "tw = 1 \<or> tw = 2 \<or> tw = 4" and f1w: "f1w = 1 \<or> f1w = 2 \<or> f1w = 3 \<or> f1w = 4"
  shows "(k + length (concat (map section_objects index))) * (tw + f1w + f2w) \<le> length data
    \<Longrightarrow> xref_sections tw f1w f2w data index (k * (tw + f1w + f2w), m)
        = Inr ((k + length (concat (map section_objects index))) * (tw + f1w + f2w),
               spec_records tw f1w f2w data k (concat (map section_objects index)) m)"
proof (induction index arbitrary: k m)
  case Nil
  then show ?case by simp
next
  case (Cons p index)
  let ?ns = "section_objects p"
  have first: "(k + length ?ns) * (tw + f1w + f2w) \<le> length data"
  proof -
    have "(k + length ?ns) * (tw + f1w + f2w)
        \<le> (k + length (concat (map section_objects (p # index)))) * (tw + f1w + f2w)"
      by (intro mult_le_mono1) simp
    then show ?thesis using Cons.prems by (rule order_trans)
  qed
  have rest: "((k + length ?ns) + length (concat (map section_objects index))) * (tw + f1w + f2w)
      \<le> length data"
    using Cons.prems by (simp add: add.assoc)
  have eq: "k + length (concat (map section_objects (p # index)))
      = (k + length ?ns) + length (concat (map section_objects index))"
    by simp
  have cat: "concat (map section_objects (p # index))
      = ?ns @ concat (map section_objects index)"
    by simp
  show ?case
    unfolding eq cat spec_records_append
    by (simp add: xref_entries_spec [OF tw f1w first] Cons.IH [OF rest])
qed

lemma wrap_int_id: "- (2 ^ 31) \<le> v \<Longrightarrow> v < 2 ^ 31 \<Longrightarrow> wrap_int v = v"
  by (simp add: wrap_int_def)

lemma section_objects_in_range:
  assumes "0 \<le> first" and "first + int count \<le> 2 ^ 31"
  shows "section_objects (first, count) = spec_objects (first, count)"
  using assms by (simp add: section_objects_def spec_objects_def wrap_int_id)

lemma sections_in_range:
  assumes "\<forall>(first, count) \<in> set index. 0 \<le> first \<and> first + int count \<le> 2 ^ 31"
  shows "map section_objects index = map spec_objects index"
  using assms by (auto simp: section_objects_in_range)

text \<open>
  Claim C9, as amended.  Let the type width \<open>w0\<close> be 1, 2 or 4 and the width \<open>w1\<close> of
  field 1 be 1, 2, 3 or 4 (the widths the decoder reads), let every range of \<^verbatim>\<open>Index\<close>
  end within the object numbers that an \<^verbatim>\<open>int\<close> holds (\<open>first + count \<le> 2\<^sup>3\<^sup>1\<close>), and
  let the decompressed data hold a record for every object that \<^verbatim>\<open>Index\<close> declares.
  Then the decoder returns the map of the specification: the records are taken in the
  order of \<^verbatim>\<open>Index\<close>, each record whose big-endian type field is 1 adds its object
  number with its big-endian field 1 as the file offset, and a record of type 0 (free),
  type 2 (compressed) or any other type adds nothing.  For the input of E6 the map is
  \<open>{1 \<mapsto> 0x0F, 2 \<mapsto> 0x5C}\<close> and object 0 is not in it (the witness).  The claim as
  stated speaks of every triple of widths.
\<close>

theorem xref_stream_decoding:
  assumes "w0 = 1 \<or> w0 = 2 \<or> w0 = 4" and "w1 = 1 \<or> w1 = 2 \<or> w1 = 3 \<or> w1 = 4"
    and "\<forall>(first, count) \<in> set index. 0 \<le> first \<and> first + int count \<le> 2 ^ 31"
    and "length (concat (map spec_objects index)) * (w0 + w1 + w2) \<le> length data"
  shows "xref_stream_offsets [w0, w1, w2] data index = Inr (spec_offsets w0 w1 w2 data index)"
proof -
  have objects: "map section_objects index = map spec_objects index"
    using assms(3) by (rule sections_in_range)
  have "xref_sections w0 w1 w2 data index (0 * (w0 + w1 + w2), [])
      = Inr ((0 + length (concat (map section_objects index))) * (w0 + w1 + w2),
             spec_records w0 w1 w2 data 0 (concat (map section_objects index)) [])"
    using assms(4) by (intro xref_sections_spec [OF assms(1,2)]) (simp add: objects)
  then show ?thesis
    by (simp add: xref_stream_offsets_def spec_offsets_def objects)
qed

theorem xref_stream_decoding_witness:
  "xref_stream_offsets [1, 2, 1] E6_bytes [(0, 3)] = Inr [(1, 0x0F), (2, 0x5C)]
   \<and> map_of [(1, 0x0F), (2, 0x5C :: nat)] (0 :: int) = None"
proof -
  have w: "(1 :: nat) = 1 \<or> (1 :: nat) = 2 \<or> (1 :: nat) = 4"
    "(2 :: nat) = 1 \<or> (2 :: nat) = 2 \<or> (2 :: nat) = 3 \<or> (2 :: nat) = 4"
    by simp_all
  have r: "\<forall>(first, count) \<in> set [(0 :: int, 3 :: nat)]. 0 \<le> first \<and> first + int count \<le> 2 ^ 31"
    by simp
  have l: "length (concat (map spec_objects [(0, 3)])) * (1 + 2 + 1) \<le> length E6_bytes"
    by (simp add: spec_objects_def E6_bytes_def)
  have s: "spec_offsets 1 2 1 E6_bytes [(0, 3)] = [(1, 0x0F), (2, 0x5C)]"
    by code_simp
  show ?thesis
    using xref_stream_decoding [OF w r l] s by simp
qed

text \<open>
  Against C9 as stated, one input for each condition of the amended claim.
  With \<^verbatim>\<open>W [3 2 1]\<close> the type is not read at all (it stays 0), so the record
  \<^verbatim>\<open>00 00 01 00 0F 00\<close>, whose type field equals 1, is treated as free and object 1 gets
  no offset.  With \<^verbatim>\<open>W [1 5 1]\<close> field 1 is not read (it stays 0), so the record
  \<^verbatim>\<open>01 00 00 00 00 0F 00\<close> of type 1 gives object 1 the offset 0 and not \<open>0x0F\<close>.  With
  \<^verbatim>\<open>Index [2147483647 2]\<close> the second object number is not an \<^verbatim>\<open>int\<close>: the decoder
  records the second record of E6 under \<open>- 2147483648\<close> and not under \<open>2147483648\<close>.
\<close>

theorem xref_width_counterexample:
  "big_endian (take 3 (xref_record 6 wide_type_bytes 0)) = 1
   \<and> xref_stream_offsets [3, 2, 1] wide_type_bytes [(1, 1)] = Inr []
   \<and> spec_offsets 3 2 1 wide_type_bytes [(1, 1)] = [(1, 0x0F)]
   \<and> xref_stream_offsets [1, 5, 1] wide_field_bytes [(1, 1)] = Inr [(1, 0)]
   \<and> spec_offsets 1 5 1 wide_field_bytes [(1, 1)] = [(1, 0x0F)]
   \<and> xref_stream_offsets [1, 2, 1] (drop 4 E6_bytes) [(2147483647, 2)]
       = Inr [(2147483647, 0x0F), (- 2147483648, 0x5C)]
   \<and> spec_offsets 1 2 1 (drop 4 E6_bytes) [(2147483647, 2)]
       = [(2147483647, 0x0F), (2147483648, 0x5C)]"
  by code_simp

text \<open>The decoder that is never called gives the empty map on the input of E6.\<close>

lemma parseXRefStreamData_E6:
  "parseXRefStreamData E6_bytes (Some [1, 2, 1]) [(0, 3)] = Inr []"
  by code_simp

end
